theory Spec2Isabelle
  imports Complex_Main "HOL-Library.Log_Nat"
begin

section \<open>JavaScript values, strings and object literals\<close>

text \<open>
  The scrapers and integrations are TypeScript. Values whose static type is \<open>any\<close>, and
  object literals whose field names matter, are modelled by \<open>jsval\<close>: an object is the
  list of its own properties in insertion order. The scrapers and the balance fetch only
  copy and compare the numbers they read from JSON, so a number is the rational it
  denotes (\<open>number\<close>); comparing two doubles is comparing those rationals.
\<close>

type_synonym number = rat

datatype jsval =
    JUndefined
  | JNull
  | JBool bool
  | JNum number
  | JStr string
  | JArr "jsval list"
  | JObj "(string \<times> jsval) list"

type_synonym jsobj = "(string \<times> jsval) list"

text \<open>What JavaScript throws: \<open>new Error(message)\<close>, a \<open>TypeError\<close> or
  \<open>SyntaxError\<close> raised by the runtime, or a system error of Node with its \<open>code\<close>
  (\<open>ENOENT\<close>, ...) and message. Messages that the source extends with a
  \<open>JSON.stringify\<close> dump are kept up to the dump.\<close>

datatype error =
    Error string
  | TypeError string
  | SyntaxError string
  | SystemError string string

fun message :: "error \<Rightarrow> string" where
  "message (Error m) = m"
| "message (TypeError m) = m"
| "message (SyntaxError m) = m"
| "message (SystemError c m) = m"

fun error_code :: "error \<Rightarrow> string option" where
  "error_code (SystemError c m) = Some c"
| "error_code e = None"

definition has_field :: "jsobj \<Rightarrow> string \<Rightarrow> bool" where
  "has_field obj k = (k \<in> set (map fst obj))"

definition field :: "jsobj \<Rightarrow> string \<Rightarrow> jsval" where
  "field obj k = (case map_of obj k of Some v \<Rightarrow> v | None \<Rightarrow> JUndefined)"

text \<open>\<open>String.prototype.startsWith\<close>, \<open>includes\<close>, \<open>replace\<close> with a string pattern
  (first occurrence only), \<open>toLowerCase\<close> (on ASCII letters) and \<open>Array.prototype.join\<close>.\<close>

definition startsWith :: "string \<Rightarrow> string \<Rightarrow> bool" where
  "startsWith s p = (take (length p) s = p)"

fun str_includes :: "string \<Rightarrow> string \<Rightarrow> bool" where
  "str_includes [] sub = (sub = [])"
| "str_includes (c # cs) sub = (startsWith (c # cs) sub \<or> str_includes cs sub)"

fun replace_first :: "string \<Rightarrow> string \<Rightarrow> string \<Rightarrow> string" where
  "replace_first [] p r = (if p = [] then r else [])"
| "replace_first (c # cs) p r =
     (if startsWith (c # cs) p then r @ drop (length p) (c # cs)
      else c # replace_first cs p r)"

definition lower_char :: "char \<Rightarrow> char" where
  "lower_char c =
     (case map_of (zip ''ABCDEFGHIJKLMNOPQRSTUVWXYZ'' ''abcdefghijklmnopqrstuvwxyz'') c of
        Some d \<Rightarrow> d
      | None \<Rightarrow> c)"

definition toLowerCase :: "string \<Rightarrow> string" where
  "toLowerCase s = map lower_char s"

fun join :: "string list \<Rightarrow> string \<Rightarrow> string" where
  "join [] sep = []"
| "join [x] sep = x"
| "join (x # y # ys) sep = x @ sep @ join (y # ys) sep"

text \<open>The names every object literal inherits from \<open>Object.prototype\<close>: a lookup
  \<open>{...}[key]\<close> with one of them as key yields the inherited member, not \<open>undefined\<close>.\<close>

definition object_prototype_keys :: "string list" where
  "object_prototype_keys =
     [''constructor'', ''__defineGetter__'', ''__defineSetter__'', ''hasOwnProperty'',
      ''__lookupGetter__'', ''__lookupSetter__'', ''isPrototypeOf'',
      ''propertyIsEnumerable'', ''toString'', ''valueOf'', ''__proto__'',
      ''toLocaleString'']"

section \<open>JavaScript numbers in arithmetic\<close>

text \<open>
  Where the code computes with numbers (the transfer calculation adds, divides and
  subtracts balances) a number is an IEEE 754 double: a finite value, which is the
  rational it denotes, an infinity or \<open>NaN\<close>. The two zeros are one value: they compare
  equal and differ in nothing the code below observes. An operation on finite values
  computes the exact rational result and rounds it to the nearest double, ties to the
  even significand.
\<close>

datatype double = Finite rat | PosInfinity | NegInfinity | NaN

definition pow2 :: "int \<Rightarrow> rat" where
  "pow2 k = (if 0 \<le> k then 2 ^ nat k else 1 / 2 ^ nat (- k))"

text \<open>For \<open>a > 0\<close>, the \<open>e\<close> with \<open>2^e \<le> a < 2^(e+1)\<close>: the bit lengths of numerator
  and denominator give it up to one.\<close>

definition exponent_of :: "rat \<Rightarrow> int" where
  "exponent_of a =
     (let d = bitlen (fst (quotient_of a)) - bitlen (snd (quotient_of a))
      in if pow2 d \<le> a then d else d - 1)"

definition round_half_even :: "rat \<Rightarrow> int" where
  "round_half_even x =
     (let f = \<lfloor>x\<rfloor>; d = x - of_int f
      in if d < 1 / 2 then f
         else if 1 / 2 < d then f + 1
         else if even f then f else f + 1)"

text \<open>Rounding to a double: 53 significant bits, so the spacing of the doubles around
  \<open>r\<close> is \<open>2^(e - 52)\<close>, and \<open>2^(-1074)\<close> below the smallest normal number; a result of
  magnitude \<open>2^1024\<close> or more is an infinity.\<close>

definition round_double :: "rat \<Rightarrow> double" where
  "round_double r =
     (let k = max (exponent_of \<bar>r\<bar>) (- 1022) - 52;
          x = of_int (round_half_even (r / pow2 k)) * pow2 k
      in if 1024 \<le> exponent_of \<bar>x\<bar> then (if 0 < r then PosInfinity else NegInfinity)
         else Finite x)"

fun negative :: "double \<Rightarrow> bool" where
  "negative (Finite r) = (r < 0)"
| "negative NegInfinity = True"
| "negative d = False"

definition signed_infinity :: "bool \<Rightarrow> double" where
  "signed_infinity neg = (if neg then NegInfinity else PosInfinity)"

fun js_neg :: "double \<Rightarrow> double" where
  "js_neg (Finite r) = Finite (- r)"
| "js_neg PosInfinity = NegInfinity"
| "js_neg NegInfinity = PosInfinity"
| "js_neg NaN = NaN"

fun js_add :: "double \<Rightarrow> double \<Rightarrow> double" where
  "js_add NaN y = NaN"
| "js_add x NaN = NaN"
| "js_add (Finite a) (Finite b) = round_double (a + b)"
| "js_add PosInfinity NegInfinity = NaN"
| "js_add NegInfinity PosInfinity = NaN"
| "js_add PosInfinity y = PosInfinity"
| "js_add NegInfinity y = NegInfinity"
| "js_add (Finite a) y = y"

definition js_sub :: "double \<Rightarrow> double \<Rightarrow> double" where
  "js_sub x y = js_add x (js_neg y)"

fun js_mul :: "double \<Rightarrow> double \<Rightarrow> double" where
  "js_mul NaN y = NaN"
| "js_mul x NaN = NaN"
| "js_mul (Finite a) (Finite b) = round_double (a * b)"
| "js_mul (Finite a) y = (if a = 0 then NaN else signed_infinity ((a < 0) \<noteq> negative y))"
| "js_mul x (Finite b) = (if b = 0 then NaN else signed_infinity (negative x \<noteq> (b < 0)))"
| "js_mul x y = signed_infinity (negative x \<noteq> negative y)"

fun js_div :: "double \<Rightarrow> double \<Rightarrow> double" where
  "js_div NaN y = NaN"
| "js_div x NaN = NaN"
| "js_div (Finite a) (Finite b) =
     (if b = 0 then (if a = 0 then NaN else signed_infinity (a < 0))
      else round_double (a / b))"
| "js_div (Finite a) y = Finite 0"
| "js_div x (Finite b) = signed_infinity (negative x \<noteq> (b < 0))"
| "js_div x y = NaN"

text \<open>\<open>Math.floor\<close>; the floor of a double is a double.\<close>

fun js_floor :: "double \<Rightarrow> double" where
  "js_floor (Finite r) = Finite (of_int \<lfloor>r\<rfloor>)"
| "js_floor d = d"

text \<open>\<open>x <= y\<close> and \<open>x < y\<close>: false as soon as one side is \<open>NaN\<close>.\<close>

fun js_le :: "double \<Rightarrow> double \<Rightarrow> bool" where
  "js_le NaN y = False"
| "js_le x NaN = False"
| "js_le (Finite a) (Finite b) = (a \<le> b)"
| "js_le NegInfinity y = True"
| "js_le x PosInfinity = True"
| "js_le x y = False"

definition js_lt :: "double \<Rightarrow> double \<Rightarrow> bool" where
  "js_lt x y = (js_le x y \<and> \<not> js_le y x)"

text \<open>\<open>Array.prototype.sort\<close> with a comparator. The sort is stable; a comparator
  result that is positive puts the second argument first, and any other result (negative,
  zero, \<open>NaN\<close>) leaves the two in their order. For a comparator that orders the elements
  consistently the sorted array is determined, and it is what inserting the elements one
  by one, from the right, gives. (With \<open>NaN\<close> among the keys the comparator is not
  consistent and the order is left to the implementation.)\<close>

fun js_insort :: "('a \<Rightarrow> 'a \<Rightarrow> double) \<Rightarrow> 'a \<Rightarrow> 'a list \<Rightarrow> 'a list" where
  "js_insort cmp x [] = [x]"
| "js_insort cmp x (y # ys) =
     (if js_lt (Finite 0) (cmp x y) then y # js_insort cmp x ys else x # y # ys)"

definition js_sort :: "('a \<Rightarrow> 'a \<Rightarrow> double) \<Rightarrow> 'a list \<Rightarrow> 'a list" where
  "js_sort cmp xs = foldr (js_insort cmp) xs []"

section \<open>Scraper metadata\<close>

text \<open>The exported \<open>meta\<close> object literals of \<open>united.ts\<close>, \<open>aa.ts\<close> and the alaska
  scraper, field by field, and the metadata the gateway scanner hands to the engine
  (\<open>{ ...aaMeta, defaultTimeoutMs: 60000 }\<close>).\<close>

definition united_meta :: jsobj where
  "united_meta =
     [(''name'', JStr ''united''),
      (''blockUrls'', JArr [JStr ''liveperson.net'', JStr ''tags.tiqcdn.com''])]"

definition aa_meta :: jsobj where
  "aa_meta =
     [(''name'', JStr ''aa''),
      (''blockUrls'', JArr [JStr ''cludo.com'', JStr ''entrust.net'', JStr ''tiqcdn.com'',
         JStr ''cludo.com'', JStr ''*.go-mpulse.net''])]"

definition alaska_meta :: jsobj where
  "alaska_meta =
     [(''name'', JStr ''alaska''),
      (''blockUrls'', JArr
        [JStr ''cdn.appdynamics.com'', JStr ''*.siteintercept.qualtrics.com'',
         JStr ''dc.services.visualstudio.com'', JStr ''js.adsrvr.org'',
         JStr ''siteintercept.qualtrics.com'', JStr ''bing.com'', JStr ''tiktok.com'',
         JStr ''www.googletagmanager.com'', JStr ''facebook.net'', JStr ''demdex.net'',
         JStr ''cdn.uplift-platform.com'', JStr ''contentcdnprodacct.blob.core.windows.net'',
         JStr ''doubleclick.net'', JStr ''www.google-analytics.com'',
         JStr ''collect.tealiumiq.com'', JStr ''alaskaair-app.quantummetric.com'',
         JStr ''facebook.com'', JStr ''rl.quantummetric.com'', JStr ''app.securiti.ai'',
         JStr ''cdn.optimizely.com''])]"

definition searchGateway_meta :: jsobj where
  "searchGateway_meta = aa_meta @ [(''defaultTimeoutMs'', JNum 60000)]"

definition blockUrls :: "jsobj \<Rightarrow> jsval list" where
  "blockUrls m = (case field m ''blockUrls'' of JArr ps \<Rightarrow> ps | _ \<Rightarrow> [])"

section \<open>Transfer partners (\<open>transfer-partners.ts\<close>)\<close>

text \<open>Every field the source types as \<open>number\<close> is a \<open>double\<close> here, and every
  \<open>+\<close>, \<open>-\<close>, \<open>*\<close>, \<open>/\<close>, \<open>Math.floor\<close> and comparison of the source is the operation
  on doubles.\<close>

record AwardWalletBalance =
  programId :: string
  programName :: string
  currency :: string
  balance :: double
  expirationDate :: "string option"
  lastUpdated :: string
  isActive :: bool

record TransferBonus =
  bonusPercentage :: double
  validUntil :: string
  bonusMinimumTransfer :: "double option"
  description :: string

record TransferPartner =
  partnerProgram :: string
  ratio :: double
  minimumTransfer :: double
  maximumTransfer :: "double option"
  partnerTransferTime :: string
  bonusPromotions :: "TransferBonus list option"

record TransferOption =
  fromProgram :: string
  toProgram :: string
  availablePoints :: double
  transferRatio :: double
  resultingMiles :: double
  transferTime :: string
  bonusActive :: "bool option"
  bonusDescription :: "string option"

record TransferCalculation =
  scraperName :: string
  displayName :: string
  directBalance :: double
  transferableBalance :: double
  transferOptions :: "TransferOption list"

text \<open>Two fields are renamed because record fields share one name space:
  \<open>TransferPartner.transferTime\<close> is \<open>partnerTransferTime\<close>,
  \<open>TransferBonus.minimumTransfer\<close> is \<open>bonusMinimumTransfer\<close>, and
  \<open>TransferCalculation.programName\<close> is \<open>displayName\<close>.\<close>

definition partner :: "string \<Rightarrow> string \<Rightarrow> TransferPartner" where
  "partner p t =
     \<lparr>partnerProgram = p, ratio = Finite 1, minimumTransfer = Finite 1000,
      maximumTransfer = None,
      partnerTransferTime = t, bonusPromotions = None\<rparr>"

definition CHASE_UR_PARTNERS :: "TransferPartner list" where
  "CHASE_UR_PARTNERS =
     [partner ''united'' ''instant'', partner ''air-france'' ''instant'',
      partner ''british-airways'' ''instant'', partner ''singapore'' ''instant'',
      partner ''southwest'' ''instant'']"

definition AMEX_MR_PARTNERS :: "TransferPartner list" where
  "AMEX_MR_PARTNERS =
     [partner ''air-france'' ''instant'', partner ''british-airways'' ''instant'',
      partner ''delta'' ''instant'', partner ''emirates'' ''1-2 days'',
      partner ''singapore'' ''instant'']"

definition CAPITAL_ONE_PARTNERS :: "TransferPartner list" where
  "CAPITAL_ONE_PARTNERS =
     [partner ''air-france'' ''instant'', partner ''british-airways'' ''instant'',
      partner ''emirates'' ''1-2 days'', partner ''singapore'' ''instant'']"

definition CITI_TYP_PARTNERS :: "TransferPartner list" where
  "CITI_TYP_PARTNERS =
     [partner ''air-france'' ''1-2 days'', partner ''emirates'' ''1-2 days'',
      partner ''singapore'' ''1-2 days'']"

definition BILT_PARTNERS :: "TransferPartner list" where
  "BILT_PARTNERS =
     [partner ''united'' ''instant'', partner ''alaska'' ''instant'',
      partner ''aa'' ''instant'', partner ''air-france'' ''instant'',
      partner ''emirates'' ''1-2 days'']"

text \<open>\<open>TRANSFER_PROGRAMS\<close>, in the key order that \<open>Object.entries\<close> and
  \<open>Object.values\<close> enumerate.\<close>

definition TRANSFER_PROGRAMS :: "(string \<times> TransferPartner list) list" where
  "TRANSFER_PROGRAMS =
     [(''chase-ur'', CHASE_UR_PARTNERS), (''amex-mr'', AMEX_MR_PARTNERS),
      (''capital-one'', CAPITAL_ONE_PARTNERS), (''citi-typ'', CITI_TYP_PARTNERS),
      (''bilt'', BILT_PARTNERS)]"

definition isAirlineProgram :: "string \<Rightarrow> bool" where
  "isAirlineProgram pn =
     (let airlineKeywords =
        [''airlines'', ''airways'', ''air'', ''mileageplus'', ''aadvantage'', ''skymiles'',
         ''trueblue'', ''rapid rewards'', ''aeroplan'', ''flying blue'', ''executive club'',
         ''avios'', ''privilege club'', ''skywards'', ''mileage plan''];
          lowerName = toLowerCase pn
      in list_ex (\<lambda>keyword. str_includes lowerName keyword) airlineKeywords)"

definition getScraperName :: "string \<Rightarrow> string" where
  "getScraperName pn =
     (let name = toLowerCase pn in
      if str_includes name ''united'' then ''united''
      else if str_includes name ''american'' \<or> str_includes name ''aadvantage'' then ''aa''
      else if str_includes name ''delta'' then ''delta''
      else if str_includes name ''alaska'' then ''alaska''
      else if str_includes name ''jetblue'' then ''jetblue''
      else if str_includes name ''southwest'' then ''southwest''
      else if str_includes name ''aeroplan'' \<or> str_includes name ''air canada'' then ''aeroplan''
      else if str_includes name ''flying blue'' \<or> str_includes name ''air france''
        then ''air-france''
      else if str_includes name ''british'' \<or> str_includes name ''avios''
        then ''british-airways''
      else if str_includes name ''qatar'' then ''qatar''
      else if str_includes name ''emirates'' then ''emirates''
      else ''unknown'')"

text \<open>\<open>displayNames[scraperName] || scraperName\<close>; the scraper names that reach it are
  the constants of this file, none of them a member name of \<open>Object.prototype\<close>.\<close>

definition getProgramDisplayName :: "string \<Rightarrow> string" where
  "getProgramDisplayName sn =
     (case map_of
        [(''united'', ''United MileagePlus''), (''aa'', ''American AAdvantage''),
         (''delta'', ''Delta SkyMiles''), (''alaska'', ''Alaska Mileage Plan''),
         (''jetblue'', ''JetBlue TrueBlue''), (''southwest'', ''Southwest Rapid Rewards''),
         (''aeroplan'', ''Air Canada Aeroplan''), (''air-france'', ''Air France Flying Blue''),
         (''british-airways'', ''British Airways Executive Club''),
         (''qatar'', ''Qatar Airways Privilege Club''), (''emirates'', ''Emirates Skywards'')]
        sn of
        Some d \<Rightarrow> d
      | None \<Rightarrow> sn)"

definition getCreditCardVariations :: "string \<Rightarrow> string list" where
  "getCreditCardVariations program =
     (case map_of
        [(''chase-ur'', [''chase ultimate rewards'', ''ultimate rewards'', ''chase ur'']),
         (''amex-mr'', [''american express membership rewards'', ''membership rewards'',
            ''amex mr'', ''amex points'']),
         (''capital-one'', [''capital one venture'', ''capital one'', ''venture miles'']),
         (''citi-typ'', [''citi thankyou'', ''thankyou points'', ''citi typ'', ''citi points'']),
         (''bilt'', [''bilt rewards'', ''bilt points''])]
        program of
        Some vs \<Rightarrow> vs
      | None \<Rightarrow> [program])"

text \<open>\<open>reduce((sum, b) => sum + b.balance, 0)\<close> is a left fold of double additions.\<close>

definition getDirectBalance :: "string \<Rightarrow> AwardWalletBalance list \<Rightarrow> double" where
  "getDirectBalance program balances =
     foldl (\<lambda>sum b. js_add sum (balance b)) (Finite 0)
       (filter (\<lambda>b. getScraperName (programName b) = program) balances)"

definition getBalanceForProgram :: "string \<Rightarrow> AwardWalletBalance list \<Rightarrow> double" where
  "getBalanceForProgram program balances =
     (let programVariations = getCreditCardVariations program in
      foldl (\<lambda>sum b. js_add sum (balance b)) (Finite 0)
        (filter (\<lambda>b. list_ex (\<lambda>variation.
            str_includes (toLowerCase (programName b)) (toLowerCase variation))
          programVariations) balances))"

text \<open>The loop of \<open>calculateTransfersToProgram\<close> over \<open>Object.entries(TRANSFER_PROGRAMS)\<close>;
  each \<open>continue\<close> is the recursive call without a push.\<close>

fun transfers_loop ::
  "(string \<times> TransferPartner list) list \<Rightarrow> string \<Rightarrow> AwardWalletBalance list
    \<Rightarrow> TransferOption list" where
  "transfers_loop [] targetProgram balances = []"
| "transfers_loop ((creditProgram, partners) # rest) targetProgram balances =
     (let creditBalance = getBalanceForProgram creditProgram balances in
      if js_le creditBalance (Finite 0) then transfers_loop rest targetProgram balances
      else case find (\<lambda>p. partnerProgram p = targetProgram) partners of
        None \<Rightarrow> transfers_loop rest targetProgram balances
      | Some p \<Rightarrow>
          (let maxTransferable =
             js_mul (js_floor (js_div creditBalance (ratio p))) (ratio p) in
           if js_le (minimumTransfer p) maxTransferable then
             \<lparr>fromProgram = creditProgram, toProgram = targetProgram,
              availablePoints = maxTransferable, transferRatio = ratio p,
              resultingMiles = js_div maxTransferable (ratio p),
              transferTime = partnerTransferTime p,
              bonusActive = None, bonusDescription = None\<rparr>
             # transfers_loop rest targetProgram balances
           else transfers_loop rest targetProgram balances))"

definition calculateTransfersToProgram ::
  "string \<Rightarrow> AwardWalletBalance list \<Rightarrow> TransferOption list" where
  "calculateTransfersToProgram targetProgram balances =
     transfers_loop TRANSFER_PROGRAMS targetProgram balances"

text \<open>A JavaScript \<open>Set\<close> keeps insertion order and ignores a value it already holds.\<close>

definition set_add :: "'a list \<Rightarrow> 'a \<Rightarrow> 'a list" where
  "set_add xs x = (if x \<in> set xs then xs else xs @ [x])"

definition allPrograms :: "AwardWalletBalance list \<Rightarrow> string list" where
  "allPrograms balances =
     (let direct = foldl (\<lambda>acc b.
            if isAirlineProgram (programName b)
            then set_add acc (getScraperName (programName b)) else acc) [] balances
      in foldl (\<lambda>acc transferPartners.
            foldl (\<lambda>acc' p. set_add acc' (partnerProgram p)) acc transferPartners)
          direct (map snd TRANSFER_PROGRAMS))"

definition calculation :: "AwardWalletBalance list \<Rightarrow> string \<Rightarrow> TransferCalculation" where
  "calculation balances program =
     (let direct = getDirectBalance program balances;
          options = calculateTransfersToProgram program balances;
          transferable =
            foldl (\<lambda>sum option. js_add sum (resultingMiles option)) direct options
      in \<lparr>scraperName = program, displayName = getProgramDisplayName program,
          directBalance = direct, transferableBalance = transferable,
          transferOptions = options\<rparr>)"

text \<open>The comparator of the final sort,
  \<open>(a, b) => b.transferableBalance - a.transferableBalance\<close>.\<close>

definition by_transferable_desc :: "TransferCalculation \<Rightarrow> TransferCalculation \<Rightarrow> double" where
  "by_transferable_desc a b = js_sub (transferableBalance b) (transferableBalance a)"

text \<open>\<open>calculateTransferOptions\<close>. The map \<open>balancesByProgram\<close> that the source fills
  first is never read and is left out.\<close>

definition calculateTransferOptions :: "AwardWalletBalance list \<Rightarrow> TransferCalculation list" where
  "calculateTransferOptions balances =
     js_sort by_transferable_desc (map (calculation balances) (allPrograms balances))"

text \<open>Balances that are whole numbers, small enough that no sum the calculation forms
  leaves the range \<open>-2^53 ... 2^53\<close>, in which every whole number is a double: a balance
  enters a \<open>transferableBalance\<close> at most six times (once directly and once for each of
  the five card programs).\<close>

definition is_whole :: "double \<Rightarrow> bool" where
  "is_whole d = (case d of Finite r \<Rightarrow> r = of_int \<lfloor>r\<rfloor> | _ \<Rightarrow> False)"

definition whole_part :: "double \<Rightarrow> int" where
  "whole_part d = (case d of Finite r \<Rightarrow> \<lfloor>r\<rfloor> | _ \<Rightarrow> 0)"

definition whole_balances :: "AwardWalletBalance list \<Rightarrow> bool" where
  "whole_balances wallet =
     (list_all (\<lambda>b. is_whole (balance b)) wallet
      \<and> 6 * sum_list (map (\<lambda>b. \<bar>whole_part (balance b)\<bar>) wallet) \<le> 2 ^ 53)"

text \<open>Two wallets to run the calculation on. The first holds a card balance that
  transfers to united and a united balance held directly. The second holds \<open>2^53\<close>
  united miles and two card balances of 1001 points that transfer to united.\<close>

definition wallet_entry :: "string \<Rightarrow> rat \<Rightarrow> AwardWalletBalance" where
  "wallet_entry program points =
     \<lparr>programId = ''1'', programName = program, currency = ''points'',
      balance = Finite points, expirationDate = None, lastUpdated = ''2026-02-13'',
      isActive = True\<rparr>"

definition example_balances :: "AwardWalletBalance list" where
  "example_balances =
     [wallet_entry ''Bilt Rewards'' 50000, wallet_entry ''United MileagePlus'' 25000]"

definition big_wallet :: "AwardWalletBalance list" where
  "big_wallet =
     [wallet_entry ''United'' 9007199254740992, wallet_entry ''Chase UR'' 1001,
      wallet_entry ''Bilt Points'' 1001]"

section \<open>Flight records (\<open>awardwiz-types\<close>) and the engine handle\<close>

text \<open>The type declarations of \<open>awardwiz-types.ts\<close>, \<open>scraper-types/*.ts\<close> and
  \<open>arkalis.ts\<close> are read off the way the scrapers use them. The fields of the query
  carry the prefix \<open>query_\<close>, since a flight record has an \<open>origin\<close> and a
  \<open>destination\<close> too. A cabin is the string a lookup table yields, or the member of
  \<open>Object.prototype\<close> that a lookup with an inherited name yields.\<close>

record AwardWizQuery =
  query_origin :: string
  query_destination :: string
  query_departureDate :: string

datatype cabin_val = CabinName string | InheritedMember string

record FlightFare =
  cash :: number
  currencyOfCash :: string
  miles :: number
  cabin :: cabin_val
  scraper :: string
  bookingClass :: "string option"
  isSaverFare :: "bool option"

record Amenities =
  hasPods :: "bool option"
  hasWiFi :: "bool option"

record FlightWithFares =
  departureDateTime :: string
  arrivalDateTime :: string
  origin :: string
  destination :: string
  flightNo :: string
  duration :: number
  aircraft :: string
  fares :: "FlightFare list"
  amenities :: Amenities

text \<open>\<open>{...}[key]\<close> on an object literal: the own property, else an inherited member,
  else \<open>undefined\<close> (\<open>None\<close>).\<close>

definition literal_lookup :: "(string \<times> string) list \<Rightarrow> string \<Rightarrow> cabin_val option" where
  "literal_lookup tbl k =
     (case map_of tbl k of
        Some v \<Rightarrow> Some (CabinName v)
      | None \<Rightarrow> if k \<in> set object_prototype_keys then Some (InheritedMember k) else None)"

text \<open>A loop that pushes a record, skips an element (\<open>continue\<close>, or a mapped
  \<open>undefined\<close> that the final \<open>filter\<close> drops) or throws: the first throw ends it.\<close>

fun collect :: "('a \<Rightarrow> error + 'b option) \<Rightarrow> 'a list \<Rightarrow> error + 'b list" where
  "collect f [] = Inr []"
| "collect f (x # xs) =
     (case f x of
        Inl e \<Rightarrow> Inl e
      | Inr r \<Rightarrow>
          (case collect f xs of
             Inl e \<Rightarrow> Inl e
           | Inr rs \<Rightarrow> Inr (case r of None \<Rightarrow> rs | Some y \<Rightarrow> y # rs)))"

text \<open>The calls a scraper makes on the engine handle, in order. The page expressions
  handed to \<open>evaluate\<close> are template strings around a \<open>fetch\<close>; they are named by what
  they fetch and the values interpolated into them.\<close>

datatype page_expr =
    AA_fetch_itinerary AwardWizQuery
  | United_fetch_token
  | United_fetch_flights string AwardWizQuery
  | Alaska_fetch_search string

datatype call =
    Goto string
  | Log string
  | WaitFor "(string \<times> jsobj) list"
  | Evaluate page_expr
  | Warn string

record MatchResult =
  name :: string

text \<open>The engine as the scraper sees it: what \<open>waitFor\<close> resolves to (or rejects
  with) for a set of conditions, what \<open>evaluate\<close> returns for an expression
  (\<open>None\<close> is \<open>undefined\<close>), and what \<open>warn\<close> returns.\<close>

record Arkalis =
  waitFor :: "(string \<times> jsobj) list \<Rightarrow> error + MatchResult"
  evaluate :: "page_expr \<Rightarrow> error + string option"
  warn :: "string \<Rightarrow> FlightWithFares list"

text \<open>Modelled from the spec: \<open>warn\<close> of the engine (\<open>arkalis.ts\<close> is not among the
  sources). "warn returns an empty result set without treating the run as failed."\<close>

definition arkalis_warn :: "string \<Rightarrow> FlightWithFares list" where
  "arkalis_warn msg = []"

definition falsy_string :: "string option \<Rightarrow> bool" where
  "falsy_string s = (case s of None \<Rightarrow> True | Some t \<Rightarrow> t = [])"

section \<open>The united scraper (\<open>united.ts\<close>)\<close>

record UnitedPrice =
  Amount :: number
  Currency :: string

record UnitedProduct =
  Prices :: "UnitedPrice list"
  BookingCode :: "string option"
  Description :: "string option"

record UnitedConnection =
  conn_MarketingCarrier :: "string option"
  conn_FlightNumber :: "string option"

record UnitedFlight =
  DepartDateTime :: string
  DestinationDateTime :: string
  Origin :: string
  Destination :: string
  MarketingCarrier :: string
  FlightNumber :: string
  TravelMinutes :: number
  EquipmentDescription :: string
  Connections :: "UnitedConnection list"
  Products :: "UnitedProduct list"

record Trip =
  Flights :: "UnitedFlight list"
  RequestedOrigin :: "string option"
  TripOrigin :: string
  RequestedDestination :: "string option"
  TripDestination :: string

record UnitedData =
  Trips :: "Trip list option"

record UnitedResponse =
  data :: "UnitedData option"

definition united_conditions :: "(string \<times> jsobj) list" where
  "united_conditions =
     [(''loaded'', [(''type'', JStr ''url''),
                   (''url'', JStr ''https://www.united.com/api/auth/anonymous-token'')]),
      (''anti-botting'', [(''type'', JStr ''html''),
                         (''html'', JStr ''united.com was unable to complete'')])]"

text \<open>\<open>a || b\<close> on strings: \<open>b\<close> when \<open>a\<close> is \<open>undefined\<close> or empty.\<close>

definition or_string :: "string option \<Rightarrow> string \<Rightarrow> string" where
  "or_string a b = (if falsy_string a then b else the a)"

text \<open>The object literal that maps a product's \<open>Description\<close> to a cabin, and the
  property key a \<open>Description\<close> is looked up under (\<open>undefined\<close> is the key
  \<open>"undefined"\<close>).\<close>

definition united_cabin_table :: "(string \<times> string) list" where
  "united_cabin_table =
     [(''United First'', ''business''), (''United Economy'', ''economy''),
      (''United Business'', ''business''), (''Economy'', ''economy''),
      (''Business'', ''business''), (''First'', ''first''),
      (''United Polaris business'', ''business''), (''United Premium Plus'', ''economy'')]"

definition description_key :: "string option \<Rightarrow> string" where
  "description_key d = (case d of None \<Rightarrow> ''undefined'' | Some k \<Rightarrow> k)"

definition united_cabin :: "string option \<Rightarrow> cabin_val option" where
  "united_cabin d = literal_lookup united_cabin_table (description_key d)"

text \<open>The loop over \<open>flight.Products\<close>. When a fare of the cabin exists already, the
  source assigns a cheaper fare to its local variable \<open>existingFare\<close> only:
  \<open>result.fares\<close> stays as it is.\<close>

fun united_products :: "UnitedProduct list \<Rightarrow> FlightFare list \<Rightarrow> error + FlightFare list" where
  "united_products [] fs = Inr fs"
| "united_products (product # rest) fs =
     (if Prices product = [] then united_products rest fs
      else
        (let miles' = Amount (hd (Prices product));
             cash' = (if length (Prices product) \<ge> 2 then Amount (Prices product ! 1) else 0);
             currencyOfCash' =
               (if length (Prices product) \<ge> 2 then Currency (Prices product ! 1) else []);
             bookingClass' = BookingCode product
         in case united_cabin (Description product) of
              None \<Rightarrow> Inl (Error (''Unknown cabin type: ''
                @ (case Description product of None \<Rightarrow> ''undefined'' | Some k \<Rightarrow> k)))
            | Some cabin' \<Rightarrow>
                (case find (\<lambda>fare. cabin fare = cabin') fs of
                   Some existingFare \<Rightarrow> united_products rest fs
                 | None \<Rightarrow>
                     united_products rest
                       (fs @ [\<lparr>cash = cash', currencyOfCash = currencyOfCash',
                          miles = miles', cabin = cabin', scraper = ''united'',
                          bookingClass = bookingClass', isSaverFare = None\<rparr>]))))"

definition united_flight ::
  "AwardWizQuery \<Rightarrow> Trip \<Rightarrow> UnitedFlight \<Rightarrow> error + FlightWithFares option" where
  "united_flight query unitedTrip flight =
     (let result = \<lparr>departureDateTime = DepartDateTime flight @ '':00'',
            arrivalDateTime = DestinationDateTime flight @ '':00'',
            origin = Origin flight, destination = Destination flight,
            flightNo = MarketingCarrier flight @ '' '' @ FlightNumber flight,
            duration = TravelMinutes flight, aircraft = EquipmentDescription flight,
            fares = [], amenities = \<lparr>hasPods = None, hasWiFi = None\<rparr>\<rparr>
      in if Origin flight \<noteq> or_string (RequestedOrigin unitedTrip) (TripOrigin unitedTrip)
           then Inr None
         else if Destination flight
             \<noteq> or_string (RequestedDestination unitedTrip) (TripDestination unitedTrip)
           then Inr None
         else if take 10 (departureDateTime result) \<noteq> take 10 (query_departureDate query)
           then Inr None
         else
           (let result' =
              (if length (Connections flight) > 0
               then result\<lparr>flightNo := MarketingCarrier flight @ '' '' @ FlightNumber flight
                  @ concat (map (\<lambda>c. '' / ''
                      @ or_string (conn_MarketingCarrier c) (MarketingCarrier flight)
                      @ '' '' @ or_string (conn_FlightNumber c) []) (Connections flight))\<rparr>
               else result)
            in case united_products (Products flight) [] of
                 Inl e \<Rightarrow> Inl e
               | Inr fs \<Rightarrow> Inr (Some (result'\<lparr>fares := fs\<rparr>))))"

definition united_standardizeResults ::
  "AwardWizQuery \<Rightarrow> Trip \<Rightarrow> error + FlightWithFares list" where
  "united_standardizeResults query unitedTrip =
     collect (united_flight query unitedTrip) (Flights unitedTrip)"

text \<open>\<open>runScraper\<close> of the united scraper: the calls made on the handle and what the
  promise settles to. \<open>parse\<close> is \<open>JSON.parse\<close> followed by the unchecked cast to
  \<open>UnitedResponse\<close>.\<close>

definition united_url :: "AwardWizQuery \<Rightarrow> string" where
  "united_url query =
     ''https://www.united.com/en/us/fsr/choose-flights?f='' @ query_origin query
     @ ''&t='' @ query_destination query @ ''&d='' @ query_departureDate query
     @ ''&tt=1&at=1&sc=7&px=1&taxng=1&newHP=True&clm=7&st=bestmatches&tqp=A''"

definition united_runScraper ::
  "Arkalis \<Rightarrow> (string \<Rightarrow> error + UnitedResponse) \<Rightarrow> AwardWizQuery
    \<Rightarrow> call list \<times> (error + FlightWithFares list)" where
  "united_runScraper arkalis parse query =
     (let t1 = [Goto (united_url query), Log ''waiting for page load'',
                WaitFor united_conditions]
      in case waitFor arkalis united_conditions of
           Inl e \<Rightarrow> (t1, Inl e)
         | Inr pageResult \<Rightarrow>
             if name pageResult = ''anti-botting'' then (t1, Inl (Error ''anti-botting''))
             else
               (let t2 = t1 @ [Evaluate United_fetch_token]
                in case evaluate arkalis United_fetch_token of
                     Inl e \<Rightarrow> (t2, Inl e)
                   | Inr tokenResp \<Rightarrow>
                       if falsy_string tokenResp
                       then (t2, Inl (Error ''Failed to get auth token''))
                       else
                         (let token = the tokenResp;
                              t3 = t2 @ [Log (''Got token: '' @ take 20 token @ ''...''),
                                         Evaluate (United_fetch_flights token query)]
                          in case evaluate arkalis (United_fetch_flights token query) of
                               Inl e \<Rightarrow> (t3, Inl e)
                             | Inr responseText \<Rightarrow>
                                 if falsy_string responseText
                                 then (t3, Inl (Error ''Empty response from FetchFlights''))
                                 else
                                   (case parse (the responseText) of
                                      Inl e \<Rightarrow> (t3, Inl e)
                                    | Inr fetchFlights \<Rightarrow>
                                        (case data fetchFlights of
                                           None \<Rightarrow> (t3, Inr [])
                                         | Some d \<Rightarrow>
                                             (case Trips d of
                                                None \<Rightarrow> (t3, Inr [])
                                              | Some [] \<Rightarrow> (t3, Inr [])
                                              | Some (trip # _) \<Rightarrow>
                                                  (t3 @ [Log ''parsing results''],
                                                   united_standardizeResults query trip)))))))"

section \<open>The aa scraper (\<open>aa.ts\<close>)\<close>

record AAProduct =
  productAvailable :: bool
  extendedFareCode :: "string option"
  productType :: string
  taxesAmount :: number
  taxesCurrency :: string
  perPassengerAwardPoints :: number

record AALeg =
  aircraftName :: string
  legAmenities :: "string list"

record AASegment =
  segDepartureDateTime :: string
  segArrivalDateTime :: string
  originCode :: string
  destinationCode :: string
  carrierCode :: string
  flightNumber :: string
  legs :: "AALeg list"

record Slice =
  segments :: "AASegment list"
  durationInMinutes :: number
  pricingDetail :: "AAProduct list"

record AAResponse =
  errorNumber :: "number option"
  resp_error :: "string option"
  resp_message :: "string option"
  aa_slices :: "Slice list option"

text \<open>Nested one-field objects are flattened: \<open>perPassengerTaxesAndFees.amount\<close> is
  \<open>taxesAmount\<close>, \<open>origin.code\<close> is \<open>originCode\<close>, \<open>flight.carrierCode\<close> is
  \<open>carrierCode\<close>, \<open>aircraft.name\<close> is \<open>aircraftName\<close>. An optional field is \<open>None\<close>
  when the key is absent.\<close>

definition aa_conditions :: "(string \<times> jsobj) list" where
  "aa_conditions =
     [(''success'', [(''type'', JStr ''url''),
                    (''url'', JStr ''https://www.aa.com/booking/*/find-flights*''),
                    (''onlyStatusCode'', JNum 200), (''othersThrow'', JBool True)])]"

text \<open>\<open>product.extendedFareCode?.[0]\<close>: the first character, \<open>undefined\<close> for a missing
  or empty code.\<close>

definition fareCode0 :: "AAProduct \<Rightarrow> string option" where
  "fareCode0 product =
     (case extendedFareCode product of
        None \<Rightarrow> None
      | Some [] \<Rightarrow> None
      | Some (c # _) \<Rightarrow> Some [c])"

text \<open>The key of the two fare-code lookups, \<open>product.extendedFareCode?.[0] ?? ""\<close>, and
  the three object literals.\<close>

definition fare_code_key :: "AAProduct \<Rightarrow> string" where
  "fare_code_key product = (case fareCode0 product of None \<Rightarrow> [] | Some k \<Rightarrow> k)"

definition cabinByFareCode_table :: "(string \<times> string) list" where
  "cabinByFareCode_table =
     [(''F'', ''first''), (''J'', ''business''), (''W'', ''economy''), (''Y'', ''economy'')]"

definition awardCabinByFareCode_table :: "(string \<times> string) list" where
  "awardCabinByFareCode_table =
     [(''Z'', ''first''), (''U'', ''business''), (''T'', ''economy''), (''X'', ''economy'')]"

definition cabinByProductType_table :: "(string \<times> string) list" where
  "cabinByProductType_table =
     [(''COACH'', ''economy''), (''PREMIUM_ECONOMY'', ''economy''), (''FIRST'', ''first''),
      (''BUSINESS'', ''business'')]"

definition cabinByFareCode :: "AAProduct \<Rightarrow> cabin_val option" where
  "cabinByFareCode product = literal_lookup cabinByFareCode_table (fare_code_key product)"

definition awardCabinByFareCode :: "AAProduct \<Rightarrow> cabin_val option" where
  "awardCabinByFareCode product =
     literal_lookup awardCabinByFareCode_table (fare_code_key product)"

definition cabinByProductType :: "AAProduct \<Rightarrow> cabin_val option" where
  "cabinByProductType product =
     literal_lookup cabinByProductType_table (productType product)"

text \<open>\<open>awardCabinByFareCode ?? cabinByFareCode ?? {...}[product.productType]\<close>, before
  the JetBlue rule.\<close>

definition aa_lookup_cabin :: "AAProduct \<Rightarrow> cabin_val option" where
  "aa_lookup_cabin product =
     (case awardCabinByFareCode product of
        Some c \<Rightarrow> Some c
      | None \<Rightarrow>
          (case cabinByFareCode product of
             Some c \<Rightarrow> Some c
           | None \<Rightarrow> cabinByProductType product))"

text \<open>The cabin the fare of a product gets: \<open>None\<close> where the source throws.\<close>

definition aa_cabin :: "AASegment \<Rightarrow> AAProduct \<Rightarrow> cabin_val option" where
  "aa_cabin segment product =
     (case aa_lookup_cabin product of
        None \<Rightarrow> None
      | Some c \<Rightarrow>
          Some (if carrierCode segment = ''B6'' \<and> c = CabinName ''first''
                then CabinName ''business'' else c))"

definition aa_fare :: "AASegment \<Rightarrow> AAProduct \<Rightarrow> error + FlightFare" where
  "aa_fare segment product =
     (case aa_cabin segment product of
        None \<Rightarrow>
          Inl (Error (''Unknown cabin type on '' @ carrierCode segment @ '' ''
            @ flightNumber segment @ ''. Fare code: ''
            @ (case fareCode0 product of None \<Rightarrow> ''undefined'' | Some k \<Rightarrow> k)
            @ '', product type: '' @ productType product))
      | Some c \<Rightarrow>
          Inr \<lparr>cash = taxesAmount product, currencyOfCash = taxesCurrency product,
               miles = perPassengerAwardPoints product, cabin = c, scraper = ''aa'',
               bookingClass = fareCode0 product,
               isSaverFare = Some (awardCabinByFareCode product \<noteq> None)\<rparr>)"

text \<open>\<open>Array.prototype.map\<close> with a callback that may throw.\<close>

fun map_throwing :: "('a \<Rightarrow> error + 'b) \<Rightarrow> 'a list \<Rightarrow> error + 'b list" where
  "map_throwing f [] = Inr []"
| "map_throwing f (x # xs) =
     (case f x of
        Inl e \<Rightarrow> Inl e
      | Inr y \<Rightarrow> (case map_throwing f xs of Inl e \<Rightarrow> Inl e | Inr ys \<Rightarrow> Inr (y # ys)))"

text \<open>The callback of \<open>reduce\<close>. Its first check, \<open>fare.cabin === undefined\<close>, cannot
  hold: the \<open>map\<close> before it has thrown for a product without a cabin.\<close>

definition lowest_step :: "FlightFare list \<Rightarrow> FlightFare \<Rightarrow> FlightFare list" where
  "lowest_step lowestCabinFares fare =
     (case find (\<lambda>check. cabin check = cabin fare) lowestCabinFares of
        Some existing \<Rightarrow>
          if miles existing < miles fare then lowestCabinFares
          else filter (\<lambda>check. cabin check \<noteq> cabin fare) lowestCabinFares @ [fare]
      | None \<Rightarrow> filter (\<lambda>check. cabin check \<noteq> cabin fare) lowestCabinFares @ [fare])"

definition aa_datetime :: "string \<Rightarrow> string" where
  "aa_datetime s = take 16 (replace_first (replace_first s '' '' []) ''T'' '' '')"

text \<open>One slice of \<open>standardizeResults\<close>. \<open>slice.segments[0]!\<close> and
  \<open>segment.legs[0]!\<close> are \<open>undefined\<close> on an empty array, and the first property read
  from them throws a \<open>TypeError\<close>. The fares are computed before the route check, so
  an unknown cabin throws also for a slice the check would drop.\<close>

definition aa_slice :: "AwardWizQuery \<Rightarrow> Slice \<Rightarrow> error + FlightWithFares option" where
  "aa_slice query slice =
     (case segments slice of
        [] \<Rightarrow> Inl (TypeError ''Cannot read properties of undefined (reading legs)'')
      | segment # _ \<Rightarrow>
          (case legs segment of
             [] \<Rightarrow> Inl (TypeError ''Cannot read properties of undefined (reading aircraft)'')
           | leg # _ \<Rightarrow>
               (case map_throwing (aa_fare segment)
                       (filter productAvailable (pricingDetail slice)) of
                  Inl e \<Rightarrow> Inl e
                | Inr mapped \<Rightarrow>
                    (let result =
                       \<lparr>departureDateTime = aa_datetime (segDepartureDateTime segment),
                        arrivalDateTime = aa_datetime (segArrivalDateTime segment),
                        origin = originCode segment, destination = destinationCode segment,
                        flightNo = carrierCode segment @ '' '' @ flightNumber segment,
                        duration = durationInMinutes slice, aircraft = aircraftName leg,
                        fares = foldl lowest_step [] mapped,
                        amenities =
                          \<lparr>hasPods = Some (list_ex (\<lambda>a. str_includes a ''lie-flat'')
                             (legAmenities leg)),
                           hasWiFi = Some (list_ex (\<lambda>a. str_includes a ''wifi'')
                             (legAmenities leg))\<rparr>\<rparr>;
                         lastSeg = last (segments slice)
                     in if originCode segment \<noteq> query_origin query
                           \<or> destinationCode lastSeg \<noteq> query_destination query
                        then Inr None
                        else if length (segments slice) > 1
                        then Inr (Some (result
                          \<lparr>arrivalDateTime := aa_datetime (segArrivalDateTime lastSeg),
                           destination := destinationCode lastSeg,
                           flightNo := join (map (\<lambda>s. carrierCode s @ '' '' @ flightNumber s)
                             (segments slice)) '' / '',
                           aircraft := join (map (\<lambda>s. case legs s of [] \<Rightarrow> []
                               | l # _ \<Rightarrow> aircraftName l) (segments slice)) '' / ''\<rparr>))
                        else Inr (Some result)))))"

definition aa_standardizeResults ::
  "Slice list \<Rightarrow> AwardWizQuery \<Rightarrow> error + FlightWithFares list" where
  "aa_standardizeResults slices query = collect (aa_slice query) slices"

text \<open>\<open>runScraper\<close> of the aa scraper. \<open>parse\<close> is \<open>JSON.parse\<close> with the cast to
  \<open>AAResponse\<close>.\<close>

definition aa_runScraper ::
  "Arkalis \<Rightarrow> (string \<Rightarrow> error + AAResponse) \<Rightarrow> AwardWizQuery
    \<Rightarrow> call list \<times> (error + FlightWithFares list)" where
  "aa_runScraper arkalis parse query =
     (let t1 = [Goto ''https://www.aa.com/booking/find-flights'', WaitFor aa_conditions]
      in case waitFor arkalis aa_conditions of
           Inl e \<Rightarrow> (t1, Inl e)
         | Inr _ \<Rightarrow>
             (let t2 = t1 @ [Log ''fetching itinerary'', Evaluate (AA_fetch_itinerary query)]
              in case evaluate arkalis (AA_fetch_itinerary query) of
                   Inl e \<Rightarrow> (t2, Inl e)
                 | Inr responseText \<Rightarrow>
                     if falsy_string responseText
                     then (t2, Inl (Error ''Empty response from AA search API''))
                     else
                       (case parse (the responseText) of
                          Inl e \<Rightarrow> (t2, Inl e)
                        | Inr json \<Rightarrow>
                            if (case errorNumber json of None \<Rightarrow> 0 | Some n \<Rightarrow> n) > 0
                               \<and> resp_error json \<noteq> None \<and> errorNumber json \<noteq> Some 309
                            then (t2, Inl (Error (the (resp_error json))))
                            else if (case errorNumber json of None \<Rightarrow> 0 | Some n \<Rightarrow> n) > 0
                               \<and> resp_message json \<noteq> None \<and> errorNumber json \<noteq> Some 1100
                            then (t2, Inl (Error (the (resp_message json))))
                            else
                              (t2 @ [Log ''parsing''],
                               aa_standardizeResults
                                 (case aa_slices json of None \<Rightarrow> [] | Some ss \<Rightarrow> ss)
                                 query))))"

section \<open>The alaska scraper\<close>

record AlaskaFare =
  bookingCodes :: "string list"
  cabins :: "string list"
  grandTotal :: number
  milesPoints :: number

record AlaskaSegment =
  departureTime :: string
  arrivalTime :: string
  departureStation :: string
  arrivalStation :: string
  publishingCarrierCode :: string
  publishingFlightNumber :: string
  segmentDuration :: number
  segmentAircraft :: string
  segmentAmenities :: "string list"

text \<open>\<open>slice.fares\<close> is an object used as a dictionary; the list holds its entries in
  the order \<open>Object.values\<close> enumerates them.\<close>

record AlaskaSlice =
  alaska_segments :: "AlaskaSegment list"
  alaska_fares :: "(string \<times> AlaskaFare) list"

record AlaskaResponse =
  alaska_slices :: "AlaskaSlice list option"

definition alaska_conditions :: "(string \<times> jsobj) list" where
  "alaska_conditions = [(''loaded'', [(''type'', JStr ''url''), (''url'', JStr ''*alaskaair.com*'')])]"

definition alaska_cabin :: "string \<Rightarrow> cabin_val option" where
  "alaska_cabin c =
     literal_lookup
       [(''FIRST'', ''business''), (''MAIN'', ''economy''), (''SAVER'', ''economy''),
        (''COACH'', ''economy''), (''BUSINESS'', ''business'')] c"

text \<open>The values the chain of \<open>!==\<close> tests on \<open>fare.cabins[0]\<close> lets through.\<close>

definition alaska_known_cabins :: "string list" where
  "alaska_known_cabins = [''MAIN'', ''FIRST'', ''SAVER'', ''COACH'', ''BUSINESS'']"

text \<open>\<open>result.fares.filter((f) => f !== existingForCabin)\<close> removes one object, the
  one \<open>find\<close> returned: the first fare of the cabin.\<close>

fun remove_first :: "('a \<Rightarrow> bool) \<Rightarrow> 'a list \<Rightarrow> 'a list" where
  "remove_first P [] = []"
| "remove_first P (x # xs) = (if P x then xs else x # remove_first P xs)"

text \<open>The loop over \<open>Object.values(slice.fares)\<close>, with the three checks in the order
  of the source.\<close>

fun alaska_fares_loop :: "AlaskaFare list \<Rightarrow> FlightFare list \<Rightarrow> error + FlightFare list" where
  "alaska_fares_loop [] fs = Inr fs"
| "alaska_fares_loop (fare # rest) fs =
     (if length (bookingCodes fare) \<noteq> 1 then Inl (Error ''multiple booking codes'')
      else if length (cabins fare) \<noteq> 1 then Inl (Error ''multiple cabins'')
      else if hd (cabins fare) \<notin> set alaska_known_cabins
        then Inl (Error (''unknown cabin: '' @ hd (cabins fare)))
      else
        (let fareToAdd =
           \<lparr>cash = grandTotal fare, currencyOfCash = ''USD'', miles = milesPoints fare,
            cabin = the (alaska_cabin (hd (cabins fare))), scraper = ''alaska'',
            bookingClass = Some (hd (bookingCodes fare)),
            isSaverFare = Some (hd (cabins fare) = ''SAVER'')\<rparr>
         in case find (\<lambda>f. cabin f = cabin fareToAdd) fs of
              Some existingForCabin \<Rightarrow>
                if miles fareToAdd < miles existingForCabin
                then alaska_fares_loop rest
                       (remove_first (\<lambda>f. cabin f = cabin fareToAdd) fs @ [fareToAdd])
                else alaska_fares_loop rest fs
            | None \<Rightarrow> alaska_fares_loop rest (fs @ [fareToAdd])))"

definition alaska_slice ::
  "AwardWizQuery \<Rightarrow> AlaskaSlice \<Rightarrow> error + FlightWithFares option" where
  "alaska_slice query slice =
     (if length (alaska_segments slice) > 1 then Inr None
      else case alaska_segments slice of
        [] \<Rightarrow> Inl (TypeError ''Cannot read properties of undefined (reading departureTime)'')
      | segment # _ \<Rightarrow>
          (let result =
             \<lparr>departureDateTime = replace_first (take 19 (departureTime segment)) ''T'' '' '',
              arrivalDateTime = replace_first (take 19 (arrivalTime segment)) ''T'' '' '',
              origin = departureStation segment, destination = arrivalStation segment,
              flightNo = publishingCarrierCode segment @ '' '' @ publishingFlightNumber segment,
              duration = segmentDuration segment, aircraft = segmentAircraft segment,
              fares = [],
              amenities = \<lparr>hasPods = None,
                 hasWiFi = Some (''Wi-Fi'' \<in> set (segmentAmenities segment))\<rparr>\<rparr>
           in if origin result \<noteq> query_origin query
                 \<or> destination result \<noteq> query_destination query
              then Inr None
              else case alaska_fares_loop (map snd (alaska_fares slice)) [] of
                     Inl e \<Rightarrow> Inl e
                   | Inr fs \<Rightarrow> Inr (Some (result\<lparr>fares := fs\<rparr>))))"

definition alaska_standardizeResults ::
  "AlaskaResponse \<Rightarrow> AwardWizQuery \<Rightarrow> error + FlightWithFares list" where
  "alaska_standardizeResults raw query =
     (case alaska_slices raw of
        None \<Rightarrow> Inl (TypeError ''undefined is not iterable'')
      | Some ss \<Rightarrow> collect (alaska_slice query) ss)"

definition alaska_searchUrl :: "AwardWizQuery \<Rightarrow> string" where
  "alaska_searchUrl query =
     ''/searchbff/V3/search?origins='' @ query_origin query
     @ ''&destinations='' @ query_destination query
     @ ''&dates='' @ query_departureDate query
     @ ''&numADTs=1&fareView=as_awards&sessionID=&solutionSetIDs=&solutionIDs=''"

text \<open>\<open>runScraper\<close> of the alaska scraper. \<open>!fetchFlights.slices\<close> holds exactly when
  the parsed body has no \<open>slices\<close> (an array, even an empty one, is truthy). The error
  message of the HTML guard quotes the first 100 characters of the response.\<close>

definition alaska_runScraper ::
  "Arkalis \<Rightarrow> (string \<Rightarrow> error + AlaskaResponse) \<Rightarrow> AwardWizQuery
    \<Rightarrow> call list \<times> (error + FlightWithFares list)" where
  "alaska_runScraper arkalis parse query =
     (let t1 = [Goto ''https://www.alaskaair.com/'', Log ''waiting for page load'',
                WaitFor alaska_conditions]
      in case waitFor arkalis alaska_conditions of
           Inl e \<Rightarrow> (t1, Inl e)
         | Inr _ \<Rightarrow>
             (let searchUrl = alaska_searchUrl query;
                  t2 = t1 @ [Log ''calling search API'', Evaluate (Alaska_fetch_search searchUrl)]
              in case evaluate arkalis (Alaska_fetch_search searchUrl) of
                   Inl e \<Rightarrow> (t2, Inl e)
                 | Inr responseText \<Rightarrow>
                     if falsy_string responseText \<or> startsWith (the responseText) ''<!''
                     then (t2, Inl (Error (''Alaska returned HTML instead of JSON: ''
                        @ (case responseText of None \<Rightarrow> ''undefined''
                           | Some t \<Rightarrow> take 100 t))))
                     else
                       (case parse (the responseText) of
                          Inl e \<Rightarrow> (t2, Inl e)
                        | Inr fetchFlights \<Rightarrow>
                            if alaska_slices fetchFlights = None
                            then (t2 @ [Warn ''No scheduled flights between cities''],
                                  Inr (warn arkalis ''No scheduled flights between cities''))
                            else
                              (t2 @ [Log ''parsing results''],
                               alaska_standardizeResults fetchFlights query))))"

section \<open>Example runs\<close>

text \<open>Inputs on which the functions above are run further down: a query, an engine
  whose \<open>waitFor\<close> reports the anti-botting page, and one whose \<open>waitFor\<close> reports the
  first condition it is given and whose \<open>evaluate\<close> returns the text \<open>{}\<close>.\<close>

definition example_query :: AwardWizQuery where
  "example_query =
     \<lparr>query_origin = ''LAX'', query_destination = ''DXB'',
      query_departureDate = ''2026-04-28''\<rparr>"

definition blocked_arkalis :: Arkalis where
  "blocked_arkalis =
     \<lparr>waitFor = (\<lambda>cs. Inr \<lparr>name = ''anti-botting''\<rparr>),
      evaluate = (\<lambda>e. Inr (Some ''{}'')),
      warn = arkalis_warn\<rparr>"

definition loaded_arkalis :: Arkalis where
  "loaded_arkalis =
     \<lparr>waitFor = (\<lambda>cs. Inr \<lparr>name = fst (hd cs)\<rparr>),
      evaluate = (\<lambda>e. Inr (Some ''{}'')),
      warn = arkalis_warn\<rparr>"

definition parse_empty_united :: "string \<Rightarrow> error + UnitedResponse" where
  "parse_empty_united s = Inr \<lparr>data = None\<rparr>"

definition parse_empty_aa :: "string \<Rightarrow> error + AAResponse" where
  "parse_empty_aa s =
     Inr \<lparr>errorNumber = None, resp_error = None, resp_message = None, aa_slices = None\<rparr>"

definition parse_empty_alaska :: "string \<Rightarrow> error + AlaskaResponse" where
  "parse_empty_alaska s = Inr \<lparr>alaska_slices = None\<rparr>"

text \<open>The form of a url-type wait condition in the scrapers: the glob is the field
  \<open>url\<close>, and the only other fields are \<open>type\<close>, \<open>onlyStatusCode\<close> and
  \<open>othersThrow\<close>.\<close>

definition url_condition_form :: "jsobj \<Rightarrow> bool" where
  "url_condition_form c =
     (has_field c ''url''
      \<and> list_all (\<lambda>k. k \<in> set [''type'', ''url'', ''onlyStatusCode'', ''othersThrow''])
          (map fst c))"

text \<open>Parsed responses to run \<open>standardizeResults\<close> on. Each holds one LAX-DXB
  itinerary. The \<open>mystery\<close> ones carry a fare product whose classification is in no
  table. Three carry the same unknown classification on a product that the scraper
  passes over: \<open>unavailable_slice\<close> (the aa product is marked unavailable),
  \<open>unpriced_trip\<close> (the united product has no price) and \<open>connecting_alaska_slice\<close>
  (the alaska slice has two segments). The \<open>inherited\<close> ones carry a classification that
  is the name of a member every object inherits. \<open>example_slice\<close> carries four available
  aa products in two cabins.\<close>

definition example_segment :: AASegment where
  "example_segment =
     \<lparr>segDepartureDateTime = ''2026-04-28T16:30:00.000-07:00'',
      segArrivalDateTime = ''2026-04-29T19:45:00.000+04:00'',
      originCode = ''LAX'', destinationCode = ''DXB'', carrierCode = ''AA'',
      flightNumber = ''100'',
      legs = [\<lparr>aircraftName = ''Boeing 777'', legAmenities = [''wifi'']\<rparr>]\<rparr>"

definition aa_product :: "bool \<Rightarrow> string option \<Rightarrow> string \<Rightarrow> number \<Rightarrow> AAProduct" where
  "aa_product available code type points =
     \<lparr>productAvailable = available, extendedFareCode = code, productType = type,
      taxesAmount = 56 / 10, taxesCurrency = ''USD'', perPassengerAwardPoints = points\<rparr>"

definition mystery_slice :: Slice where
  "mystery_slice =
     \<lparr>segments = [example_segment], durationInMinutes = 975,
      pricingDetail = [aa_product True None ''MYSTERY'' 40000]\<rparr>"

definition unavailable_slice :: Slice where
  "unavailable_slice =
     \<lparr>segments = [example_segment], durationInMinutes = 975,
      pricingDetail = [aa_product False None ''MYSTERY'' 40000]\<rparr>"

definition inherited_slice :: Slice where
  "inherited_slice =
     \<lparr>segments = [example_segment], durationInMinutes = 975,
      pricingDetail = [aa_product True None ''constructor'' 40000]\<rparr>"

definition example_slice :: Slice where
  "example_slice =
     \<lparr>segments = [example_segment], durationInMinutes = 975,
      pricingDetail =
        [aa_product True None ''COACH'' 30000,
         aa_product True (Some ''UA'') ''BUSINESS'' 90000,
         aa_product True (Some ''T'') ''COACH'' 25000,
         aa_product True None ''BUSINESS'' 120000]\<rparr>"

definition mystery_trip :: Trip where
  "mystery_trip =
     \<lparr>Flights =
        [\<lparr>DepartDateTime = ''2026-04-28 16:30'', DestinationDateTime = ''2026-04-29 19:45'',
          Origin = ''LAX'', Destination = ''DXB'', MarketingCarrier = ''UA'',
          FlightNumber = ''935'', TravelMinutes = 975,
          EquipmentDescription = ''Boeing 777-300ER'', Connections = [],
          Products = [\<lparr>Prices = [\<lparr>Amount = 80000, Currency = ''MILES''\<rparr>],
            BookingCode = Some ''I'', Description = Some ''Mystery Class''\<rparr>]\<rparr>],
      RequestedOrigin = Some ''LAX'', TripOrigin = ''LAX'',
      RequestedDestination = Some ''DXB'', TripDestination = ''DXB''\<rparr>"

definition unpriced_trip :: Trip where
  "unpriced_trip =
     \<lparr>Flights =
        [\<lparr>DepartDateTime = ''2026-04-28 16:30'', DestinationDateTime = ''2026-04-29 19:45'',
          Origin = ''LAX'', Destination = ''DXB'', MarketingCarrier = ''UA'',
          FlightNumber = ''935'', TravelMinutes = 975,
          EquipmentDescription = ''Boeing 777-300ER'', Connections = [],
          Products = [\<lparr>Prices = [], BookingCode = Some ''I'',
            Description = Some ''Mystery Class''\<rparr>]\<rparr>],
      RequestedOrigin = Some ''LAX'', TripOrigin = ''LAX'',
      RequestedDestination = Some ''DXB'', TripDestination = ''DXB''\<rparr>"

definition inherited_trip :: Trip where
  "inherited_trip =
     \<lparr>Flights =
        [\<lparr>DepartDateTime = ''2026-04-28 16:30'', DestinationDateTime = ''2026-04-29 19:45'',
          Origin = ''LAX'', Destination = ''DXB'', MarketingCarrier = ''UA'',
          FlightNumber = ''935'', TravelMinutes = 975,
          EquipmentDescription = ''Boeing 777-300ER'', Connections = [],
          Products = [\<lparr>Prices = [\<lparr>Amount = 80000, Currency = ''MILES''\<rparr>],
            BookingCode = Some ''I'', Description = Some ''toString''\<rparr>]\<rparr>],
      RequestedOrigin = Some ''LAX'', TripOrigin = ''LAX'',
      RequestedDestination = Some ''DXB'', TripDestination = ''DXB''\<rparr>"

definition mystery_alaska_slice :: AlaskaSlice where
  "mystery_alaska_slice =
     \<lparr>alaska_segments =
        [\<lparr>departureTime = ''2026-04-28T16:30:00-07:00'',
          arrivalTime = ''2026-04-29T19:45:00+04:00'', departureStation = ''LAX'',
          arrivalStation = ''DXB'', publishingCarrierCode = ''AS'',
          publishingFlightNumber = ''12'', segmentDuration = 975,
          segmentAircraft = ''Boeing 737'', segmentAmenities = [''Wi-Fi'']\<rparr>],
      alaska_fares =
        [(''SUITE'', \<lparr>bookingCodes = [''Q''], cabins = [''SUITE''], grandTotal = 56 / 10,
           milesPoints = 70000\<rparr>)]\<rparr>"

definition connecting_alaska_slice :: AlaskaSlice where
  "connecting_alaska_slice =
     \<lparr>alaska_segments =
        [\<lparr>departureTime = ''2026-04-28T08:00:00-07:00'',
          arrivalTime = ''2026-04-28T10:45:00-07:00'', departureStation = ''LAX'',
          arrivalStation = ''SEA'', publishingCarrierCode = ''AS'',
          publishingFlightNumber = ''330'', segmentDuration = 165,
          segmentAircraft = ''Boeing 737'', segmentAmenities = [''Wi-Fi'']\<rparr>,
         \<lparr>departureTime = ''2026-04-28T13:00:00-07:00'',
          arrivalTime = ''2026-04-29T16:30:00+04:00'', departureStation = ''SEA'',
          arrivalStation = ''DXB'', publishingCarrierCode = ''AS'',
          publishingFlightNumber = ''12'', segmentDuration = 870,
          segmentAircraft = ''Boeing 777'', segmentAmenities = [''Wi-Fi'']\<rparr>],
      alaska_fares =
        [(''SUITE'', \<lparr>bookingCodes = [''Q''], cabins = [''SUITE''], grandTotal = 56 / 10,
           milesPoints = 70000\<rparr>)]\<rparr>"

text \<open>The record the aa scraper produces for \<open>example_slice\<close>.\<close>

definition example_flight :: FlightWithFares where
  "example_flight =
     \<lparr>departureDateTime = ''2026-04-28 16:30'', arrivalDateTime = ''2026-04-29 19:45'',
      origin = ''LAX'', destination = ''DXB'', flightNo = ''AA 100'', duration = 975,
      aircraft = ''Boeing 777'',
      fares =
        [\<lparr>cash = 28 / 5, currencyOfCash = ''USD'', miles = 90000,
          cabin = CabinName ''business'', scraper = ''aa'', bookingClass = Some ''U'',
          isSaverFare = Some True\<rparr>,
         \<lparr>cash = 28 / 5, currencyOfCash = ''USD'', miles = 25000,
          cabin = CabinName ''economy'', scraper = ''aa'', bookingClass = Some ''T'',
          isSaverFare = Some True\<rparr>],
      amenities = \<lparr>hasPods = Some False, hasWiFi = Some True\<rparr>\<rparr>"

text \<open>What the fold of the aa scraper keeps after the fares \<open>seen\<close>: one fare per cabin
  seen, each no dearer than any fare seen of its cabin.\<close>

definition lowest_inv :: "FlightFare list \<Rightarrow> FlightFare list \<Rightarrow> bool" where
  "lowest_inv seen acc =
     (distinct (map cabin acc)
      \<and> (\<forall>g \<in> set seen. \<exists>f \<in> set acc. cabin f = cabin g)
      \<and> (\<forall>f \<in> set acc. \<forall>g \<in> set seen. cabin g = cabin f \<longrightarrow> miles f \<le> miles g))"

section \<open>The AwardWallet balance fetch (\<open>awardwallet.ts\<close>)\<close>

text \<open>Truthiness, property access (\<open>x.k\<close> throws a \<open>TypeError\<close> on \<open>null\<close> and
  \<open>undefined\<close>, and is \<open>undefined\<close> for a key an object does not have: none of the keys
  read here is inherited), \<open>a || b\<close>, and the decimal digits of a status code.\<close>

fun truthy :: "jsval \<Rightarrow> bool" where
  "truthy JUndefined = False"
| "truthy JNull = False"
| "truthy (JBool b) = b"
| "truthy (JNum n) = (n \<noteq> 0)"
| "truthy (JStr s) = (s \<noteq> [])"
| "truthy (JArr xs) = True"
| "truthy (JObj kvs) = True"

fun get_prop :: "jsval \<Rightarrow> string \<Rightarrow> error + jsval" where
  "get_prop JUndefined k = Inl (TypeError (''Cannot read properties of undefined (reading '' @ k @ '')''))"
| "get_prop JNull k = Inl (TypeError (''Cannot read properties of null (reading '' @ k @ '')''))"
| "get_prop (JObj kvs) k = Inr (field kvs k)"
| "get_prop v k = Inr JUndefined"

text \<open>A property of a value already known to be neither \<open>null\<close> nor \<open>undefined\<close>.\<close>

definition field_of :: "jsval \<Rightarrow> string \<Rightarrow> jsval" where
  "field_of v k = (case v of JObj kvs \<Rightarrow> field kvs k | _ \<Rightarrow> JUndefined)"

definition js_or :: "jsval \<Rightarrow> jsval \<Rightarrow> jsval" where
  "js_or a b = (if truthy a then a else b)"

fun string_of_nat :: "nat \<Rightarrow> string" where
  "string_of_nat n =
     (if n < 10 then [''0123456789'' ! n]
      else string_of_nat (n div 10) @ [''0123456789'' ! (n mod 10)])"

declare string_of_nat.simps [simp del]

text \<open>The world the fetch runs in: the path and content of the credentials file
  (\<open>fs.readFile\<close> rejects with a system error), \<open>JSON.parse\<close>, the HTTP exchange and the
  clock. \<open>toNumber\<close> is the numeric coercion of a string or an array (\<open>None\<close> is \<open>NaN\<close>),
  which the comparison \<open>account.balance > 0\<close> applies to such a value.\<close>

record AwardWalletCredentials =
  apiKey :: jsval
  userId :: jsval

record Response =
  ok :: bool
  status :: nat
  statusText :: string
  json :: "error + jsval"

record World =
  credentialsPath :: string
  readFile :: "string \<Rightarrow> error + string"
  JSON_parse :: "string \<Rightarrow> error + jsval"
  fetch :: "AwardWalletCredentials \<Rightarrow> error + Response"
  now :: string
  toNumber :: "jsval \<Rightarrow> number option"

record AwardWalletResponse =
  success :: bool
  balances :: "jsobj list"
  error_message :: "string option"

text \<open>\<open>AwardWalletResponse.error\<close> is the field \<open>error_message\<close>. The entries of
  \<open>balances\<close> are the object literals the loop pushes: their fields hold whatever the
  response body (\<open>any\<close>) held.\<close>

text \<open>\<open>loadAwardWalletCredentials\<close>: what the \<open>try\<close> block does, and the \<open>catch\<close>
  that rewraps every error it throws.\<close>

definition load_try :: "World \<Rightarrow> error + AwardWalletCredentials" where
  "load_try w =
     (case readFile w (credentialsPath w) of
        Inl e \<Rightarrow> Inl e
      | Inr credentialsData \<Rightarrow>
          (case JSON_parse w credentialsData of
             Inl e \<Rightarrow> Inl e
           | Inr credentials \<Rightarrow>
               (case get_prop credentials ''apiKey'' of
                  Inl e \<Rightarrow> Inl e
                | Inr k \<Rightarrow>
                    if \<not> truthy k
                    then Inl (Error ''AwardWallet credentials must include apiKey and userId'')
                    else
                      (case get_prop credentials ''userId'' of
                         Inl e \<Rightarrow> Inl e
                       | Inr u \<Rightarrow>
                           if \<not> truthy u
                           then Inl (Error
                             ''AwardWallet credentials must include apiKey and userId'')
                           else Inr \<lparr>apiKey = k, userId = u\<rparr>))))"

definition loadAwardWalletCredentials :: "World \<Rightarrow> error + AwardWalletCredentials" where
  "loadAwardWalletCredentials w =
     (case load_try w of
        Inr credentials \<Rightarrow> Inr credentials
      | Inl e \<Rightarrow>
          if error_code e = Some ''ENOENT''
          then Inl (Error (''AwardWallet credentials not found at '' @ credentialsPath w
            @ ''. Please create this file with your API key and user ID.''))
          else Inl (Error (''Failed to load AwardWallet credentials: '' @ message e)))"

text \<open>\<open>v > 0\<close> for a value of type \<open>any\<close>.\<close>

definition number_of :: "World \<Rightarrow> jsval \<Rightarrow> number option" where
  "number_of w v =
     (case v of
        JNum n \<Rightarrow> Some n
      | JBool b \<Rightarrow> Some (if b then 1 else 0)
      | JNull \<Rightarrow> Some 0
      | JUndefined \<Rightarrow> None
      | JObj kvs \<Rightarrow> None
      | _ \<Rightarrow> toNumber w v)"

definition positive :: "World \<Rightarrow> jsval \<Rightarrow> bool" where
  "positive w v = (case number_of w v of None \<Rightarrow> False | Some n \<Rightarrow> n > 0)"

text \<open>The loop over \<open>data.accounts\<close>.\<close>

fun accounts_loop :: "World \<Rightarrow> jsval list \<Rightarrow> jsobj list \<Rightarrow> error + jsobj list" where
  "accounts_loop w [] bs = Inr bs"
| "accounts_loop w (account # rest) bs =
     (case get_prop account ''balance'' of
        Inl e \<Rightarrow> Inl e
      | Inr b \<Rightarrow>
          if truthy b \<and> positive w b
          then accounts_loop w rest
            (bs @ [[(''programId'',
                      js_or (field_of account ''id'')
                        (js_or (field_of account ''programId'') (JStr []))),
                    (''programName'',
                      js_or (field_of account ''name'')
                        (js_or (field_of account ''programName'') (JStr []))),
                    (''currency'', js_or (field_of account ''currency'') (JStr ''miles'')),
                    (''balance'', b),
                    (''expirationDate'', field_of account ''expirationDate''),
                    (''lastUpdated'', js_or (field_of account ''lastUpdated'') (JStr (now w))),
                    (''isActive'', JBool (field_of account ''isActive'' \<noteq> JBool False))]])
          else accounts_loop w rest bs)"

text \<open>The balances read from a parsed body: nothing unless \<open>data.accounts\<close> is an
  array.\<close>

definition collect_accounts :: "World \<Rightarrow> jsval \<Rightarrow> error + jsobj list" where
  "collect_accounts w data' =
     (case get_prop data' ''accounts'' of
        Inl e \<Rightarrow> Inl e
      | Inr accounts \<Rightarrow>
          (case accounts of
             JArr xs \<Rightarrow> accounts_loop w xs []
           | _ \<Rightarrow> Inr []))"

text \<open>The \<open>try\<close> block of \<open>fetchAwardWalletBalances\<close>. The sort is stable, by
  descending numeric value of \<open>balance\<close>. The \<open>console.log\<close> lines write to the
  terminal only.\<close>

definition fetch_try :: "World \<Rightarrow> AwardWalletCredentials option \<Rightarrow> error + AwardWalletResponse" where
  "fetch_try w credentials =
     (case (case credentials of Some c \<Rightarrow> Inr c | None \<Rightarrow> loadAwardWalletCredentials w) of
        Inl e \<Rightarrow> Inl e
      | Inr creds \<Rightarrow>
          (case fetch w creds of
             Inl e \<Rightarrow> Inl e
           | Inr response \<Rightarrow>
               if \<not> ok response
               then Inl (Error (''AwardWallet API error: '' @ string_of_nat (status response)
                 @ '' '' @ statusText response))
               else
                 (case json response of
                    Inl e \<Rightarrow> Inl e
                  | Inr data' \<Rightarrow>
                      (case collect_accounts w data' of
                         Inl e \<Rightarrow> Inl e
                       | Inr bs \<Rightarrow>
                           Inr \<lparr>success = True,
                             balances = sort_key
                               (\<lambda>b. - (case number_of w (field b ''balance'') of
                                          None \<Rightarrow> 0 | Some n \<Rightarrow> n)) bs,
                             error_message = None\<rparr>))))"

text \<open>What holds of an entry the loop pushes: its \<open>balance\<close> passed both tests.\<close>

definition pushed_ok :: "World \<Rightarrow> jsobj \<Rightarrow> bool" where
  "pushed_ok w b = (truthy (field b ''balance'') \<and> positive w (field b ''balance''))"

text \<open>\<open>fetchAwardWalletBalances\<close>: an async function settles to a value (\<open>Inr\<close>) or
  rejects (\<open>Inl\<close>). Every value thrown in the \<open>try\<close> block is an error object, so the
  \<open>catch\<close> reads its \<open>message\<close> and returns.\<close>

definition fetchAwardWalletBalances ::
  "World \<Rightarrow> AwardWalletCredentials option \<Rightarrow> error + AwardWalletResponse" where
  "fetchAwardWalletBalances w credentials =
     (case fetch_try w credentials of
        Inr r \<Rightarrow> Inr r
      | Inl e \<Rightarrow> Inr \<lparr>success = False, balances = [], error_message = Some (message e)\<rparr>)"

text \<open>Three worlds to run the fetch in: no credentials file; an API that answers
  401; an API that answers with three accounts, one of them empty.\<close>

definition example_credentials :: AwardWalletCredentials where
  "example_credentials = \<lparr>apiKey = JStr ''key'', userId = JStr ''422003''\<rparr>"

definition missing_file_world :: World where
  "missing_file_world =
     \<lparr>credentialsPath = ''/home/user/.openclaw/credentials/awardwallet.json'',
      readFile = (\<lambda>p. Inl (SystemError ''ENOENT'' ''ENOENT: no such file or directory'')),
      JSON_parse = (\<lambda>s. Inl (SyntaxError ''Unexpected end of JSON input'')),
      fetch = (\<lambda>c. Inl (TypeError ''fetch failed'')),
      now = ''2026-02-13T22:50:00.000Z'',
      toNumber = (\<lambda>v. None)\<rparr>"

definition unauthorized_world :: World where
  "unauthorized_world =
     missing_file_world
       \<lparr>fetch := (\<lambda>c. Inr \<lparr>ok = False, status = 401, statusText = ''Unauthorized'',
          json = Inl (SyntaxError ''Unexpected end of JSON input'')\<rparr>)\<rparr>"

definition wallet_world :: World where
  "wallet_world =
     missing_file_world
       \<lparr>fetch := (\<lambda>c. Inr \<lparr>ok = True, status = 200, statusText = ''OK'',
          json = Inr (JObj [(''accounts'', JArr
            [JObj [(''name'', JStr ''United MileagePlus''), (''balance'', JNum 5000)],
             JObj [(''name'', JStr ''Delta SkyMiles''), (''balance'', JNum 0)],
             JObj [(''name'', JStr ''Bilt Rewards''), (''balance'', JNum 12000)]])])\<rparr>)\<rparr>"

section \<open>The session orchestrator\<close>

text \<open>Modelled from the spec: the SessionOrchestrator (\<open>runArkalis\<close> of \<open>arkalis.ts\<close>,
  which is not among the sources), section 4.1: it "loops up to maxAttempts; each
  iteration creates a BrowserSession, ..., invokes pluginBody", "guarantees the
  BrowserSession is closed before returning or retrying, on every path", "retries on any
  error except those the plugin marks non-retryable", treats an exceeded
  \<open>perAttemptTimeout\<close> as a retryable failure, lets "no results" short-circuit "to
  success with an empty record set", and "returns the first success, or the last error
  after exhausting attempts". Sessions are taken to launch; the outcome of an attempt is
  that of the plugin body or of the deadline.\<close>

datatype 'r outcome =
    Success "'r list"
  | NoResults
  | Thrown error bool
  | TimedOut

datatype session_event = Created nat | TornDown nat

record SessionConfig =
  maxAttempts :: nat
  perAttemptTimeout :: nat
  useProxy :: bool
  showRequests :: bool
  debugMode :: bool

definition timeout_error :: error where
  "timeout_error = Error ''attempt timed out''"

text \<open>Modelled from the spec: the attempt loop of the orchestrator. \<open>attempts body n i
  last\<close> runs at most \<open>n\<close> more attempts, the next one numbered \<open>i\<close>, after a failure
  \<open>last\<close>; \<open>Thrown e True\<close> is a retryable error. It yields the session events in
  order and the result surfaced to the caller.\<close>

fun attempts ::
  "(nat \<Rightarrow> 'r outcome) \<Rightarrow> nat \<Rightarrow> nat \<Rightarrow> error \<Rightarrow> session_event list \<times> (error + 'r list)" where
  "attempts pluginBody 0 i lastError = ([], Inl lastError)"
| "attempts pluginBody (Suc remaining) i lastError =
     (case pluginBody i of
        Success records \<Rightarrow> ([Created i, TornDown i], Inr records)
      | NoResults \<Rightarrow> ([Created i, TornDown i], Inr [])
      | Thrown e retryable \<Rightarrow>
          if retryable
          then (case attempts pluginBody remaining (Suc i) e of
                  (events, result) \<Rightarrow> (Created i # TornDown i # events, result))
          else ([Created i, TornDown i], Inl e)
      | TimedOut \<Rightarrow>
          (case attempts pluginBody remaining (Suc i) timeout_error of
             (events, result) \<Rightarrow> (Created i # TornDown i # events, result)))"

text \<open>Modelled from the spec: \<open>run(pluginBody, config, ...)\<close>. The spec does not say
  what a run with \<open>maxAttempts = 0\<close> returns; here it fails without an attempt.\<close>

definition run ::
  "(nat \<Rightarrow> 'r outcome) \<Rightarrow> SessionConfig \<Rightarrow> session_event list \<times> (error + 'r list)" where
  "run pluginBody config =
     attempts pluginBody (maxAttempts config) 1 (Error ''no attempt was made'')"

text \<open>The events of attempts \<open>i, ..., i + k - 1\<close>, each session closed before the next
  is created.\<close>

definition sessions :: "nat \<Rightarrow> nat \<Rightarrow> session_event list" where
  "sessions i k = concat (map (\<lambda>j. [Created j, TornDown j]) [i..<i + k])"

fun is_created :: "session_event \<Rightarrow> bool" where
  "is_created (Created i) = True"
| "is_created (TornDown i) = False"

text \<open>A plugin that throws a retryable error in every attempt, and a configuration
  with three attempts.\<close>

definition always_throws :: "nat \<Rightarrow> FlightWithFares outcome" where
  "always_throws i = Thrown (Error (''failure '' @ string_of_nat i)) True"

definition three_attempts :: SessionConfig where
  "three_attempts =
     \<lparr>maxAttempts = 3, perAttemptTimeout = 30000, useProxy = False, showRequests = False,
      debugMode = False\<rparr>"

text \<open>Two united products of the same cabin, the dearer one first.\<close>

definition united_product :: "string \<Rightarrow> number \<Rightarrow> UnitedProduct" where
  "united_product d m =
     \<lparr>Prices = [\<lparr>Amount = m, Currency = ''MILES''\<rparr>, \<lparr>Amount = 28 / 5, Currency = ''USD''\<rparr>],
      BookingCode = Some ''X'', Description = Some d\<rparr>"

definition two_economy_products :: "UnitedProduct list" where
  "two_economy_products =
     [united_product ''United Economy'' 30000, united_product ''Economy'' 20000]"

section \<open>Properties of the metadata\<close>

text \<open>
  C5 (as the code has it). Each scraper module exports a \<open>meta\<close> with exactly the two
  fields \<open>name\<close> and \<open>blockUrls\<close>; none carries a default timeout. The timeout is an
  optional field that a caller adds under the name \<open>defaultTimeoutMs\<close>, as the gateway
  scanner does when it spreads the aa metadata.
\<close>

theorem meta_fields:
  "map fst united_meta = [''name'', ''blockUrls'']
   \<and> map fst aa_meta = [''name'', ''blockUrls'']
   \<and> map fst alaska_meta = [''name'', ''blockUrls'']
   \<and> map fst searchGateway_meta = [''name'', ''blockUrls'', ''defaultTimeoutMs'']
   \<and> field searchGateway_meta ''defaultTimeoutMs'' = JNum 60000"
  by (simp add: united_meta_def aa_meta_def alaska_meta_def searchGateway_meta_def field_def)

text \<open>
  C5 (as the spec words it) fails: the exported metadata of the united scraper has no
  field \<open>defaultTimeout\<close>, nor one named \<open>defaultTimeoutMs\<close>.
\<close>

theorem meta_defaultTimeout_counterexample:
  "\<not> has_field united_meta ''defaultTimeout''
   \<and> \<not> has_field united_meta ''defaultTimeoutMs''"
  by (simp add: united_meta_def has_field_def)

text \<open>
  C6 at the aa scraper: its \<open>blockUrls\<close> lists the pattern \<open>cludo.com\<close> twice (first and
  fourth entry), so the list is not duplicate-free; the lists of the united and alaska
  scrapers are.
\<close>

theorem aa_blockUrls_repeats_cludo:
  "\<not> distinct (blockUrls aa_meta)
   \<and> blockUrls aa_meta ! 0 = JStr ''cludo.com''
   \<and> blockUrls aa_meta ! 3 = JStr ''cludo.com''
   \<and> distinct (blockUrls united_meta)
   \<and> distinct (blockUrls alaska_meta)"
  by (simp add: blockUrls_def field_def aa_meta_def united_meta_def alaska_meta_def)

section \<open>Properties of rounding to a double\<close>

text \<open>Every whole number of magnitude at most \<open>2^53\<close> is a double: rounding leaves it
  as it is.\<close>

lemma round_half_even_int: "round_half_even (of_int m) = m"
  by (simp add: round_half_even_def)

lemma bitlen_one: "bitlen 1 = 1"
  by (simp add: bitlen_alt_def)

lemma exponent_of_int:
  assumes "0 < a"
  shows "exponent_of (of_int a) = bitlen a - 1"
proof -
  from assms have b: "1 \<le> bitlen a" by (auto simp: bitlen_alt_def)
  from bitlen_bounds [OF assms] have "(2::int) ^ nat (bitlen a - 1) \<le> a" by blast
  then have "(of_int ((2::int) ^ nat (bitlen a - 1)) :: rat) \<le> of_int a"
    by (simp only: of_int_le_iff)
  then have "pow2 (bitlen a - 1) \<le> of_int a"
    using b by (simp add: pow2_def)
  then show ?thesis
    by (simp add: exponent_of_def quotient_of_int bitlen_one Let_def)
qed

lemma bitlen_bound_53:
  assumes "0 < a" and "a \<le> 2 ^ 53"
  shows "bitlen a - 1 \<le> 53"
proof -
  from bitlen_bounds [OF assms(1)] assms(2)
  have "(2::int) ^ nat (bitlen a - 1) \<le> 2 ^ 53" by linarith
  have "nat (bitlen a - 1) \<le> 53"
  proof (rule power_le_imp_le_exp)
    show "(1::int) < 2" by simp
    show "(2::int) ^ nat (bitlen a - 1) \<le> 2 ^ 53" by fact
  qed
  then show ?thesis by simp
qed

lemma pow2_nonzero: "pow2 k \<noteq> 0"
  by (simp add: pow2_def)

lemma round_double_exact:
  assumes "r / pow2 (max (exponent_of \<bar>r\<bar>) (- 1022) - 52) = of_int m"
    and "exponent_of \<bar>r\<bar> < 1024"
  shows "round_double r = Finite r"
proof -
  define k where "k = max (exponent_of \<bar>r\<bar>) (- 1022) - 52"
  from assms(1) have "r = of_int m * pow2 k"
    unfolding k_def [symmetric] using pow2_nonzero [of k]
    by (simp add: field_simps)
  then have x: "of_int (round_half_even (r / pow2 k)) * pow2 k = r"
    using assms(1) unfolding k_def [symmetric] by (simp add: round_half_even_int)
  show ?thesis
    unfolding round_double_def Let_def k_def [symmetric] x
    using assms(2) by simp
qed

lemma exponent_of_zero: "exponent_of 0 = - 2"
  by (simp add: exponent_of_def Let_def bitlen_one pow2_def)

lemma round_double_int:
  assumes "\<bar>n\<bar> \<le> 2 ^ 53"
  shows "round_double (of_int n) = Finite (of_int n)"
proof (cases "n = 0")
  case True
  show ?thesis
    unfolding True
    by (rule round_double_exact [of _ 0]) (simp_all add: exponent_of_zero)
next
  case False
  define a where "a = \<bar>n\<bar>"
  from False have a0: "0 < a" by (simp add: a_def)
  from assms have a53: "a \<le> 2 ^ 53" by (simp add: a_def)
  define e where "e = bitlen a - 1"
  from a0 have e0: "0 \<le> e" by (auto simp: e_def bitlen_alt_def)
  from a0 a53 have e53: "e \<le> 53" unfolding e_def by (rule bitlen_bound_53)
  have "\<bar>of_int n :: rat\<bar> = of_int a" by (simp add: a_def)
  then have ex: "exponent_of \<bar>of_int n :: rat\<bar> = e"
    unfolding e_def using a0 by (simp add: exponent_of_int)
  have low: "(2::int) ^ nat e \<le> a"
    unfolding e_def using bitlen_bounds [OF a0] by blast
  have k: "max e (- 1022) - 52 = e - 52" using e0 by simp
  have "\<exists>m. (of_int n :: rat) / pow2 (e - 52) = of_int m"
  proof (cases "e \<le> 52")
    case True
    then have p: "pow2 (e - 52) = 1 / 2 ^ nat (52 - e)"
      by (cases "e = 52") (simp_all add: pow2_def)
    show ?thesis
      by (rule exI [of _ "n * 2 ^ nat (52 - e)"]) (simp add: p)
  next
    case False
    with e53 have e: "e = 53" by simp
    with low a53 have "a = 2 ^ 53" by simp
    then have "n = 2 ^ 53 \<or> n = - (2 ^ 53)" unfolding a_def by linarith
    then show ?thesis
    proof
      assume "n = 2 ^ 53"
      then show ?thesis
        by (intro exI [of _ "2 ^ 52"]) (simp add: e pow2_def)
    next
      assume "n = - (2 ^ 53)"
      then show ?thesis
        by (intro exI [of _ "- (2 ^ 52)"]) (simp add: e pow2_def)
    qed
  qed
  then obtain m where "(of_int n :: rat) / pow2 (e - 52) = of_int m" by blast
  then have "(of_int n :: rat) / pow2 (max (exponent_of \<bar>of_int n\<bar>) (- 1022) - 52) = of_int m"
    by (simp only: ex k)
  moreover have "exponent_of \<bar>of_int n :: rat\<bar> < 1024" using ex e53 by simp
  ultimately show ?thesis by (rule round_double_exact)
qed

lemma js_add_whole:
  assumes "\<bar>a + b\<bar> \<le> 2 ^ 53"
  shows "js_add (Finite (of_int a)) (Finite (of_int b)) = Finite (of_int (a + b))"
  using round_double_int [OF assms] by simp

text \<open>With the ratio 1, dividing, flooring and multiplying leave a whole number as it
  is.\<close>

lemma ratio_one_whole:
  assumes "\<bar>c\<bar> \<le> 2 ^ 53"
  shows "js_div (Finite (of_int c)) (Finite 1) = Finite (of_int c)"
    and "js_floor (Finite (of_int c)) = Finite (of_int c)"
    and "js_mul (Finite (of_int c)) (Finite 1) = Finite (of_int c)"
  using round_double_int [OF assms] by simp_all

lemma is_whole_Finite: "is_whole d \<Longrightarrow> d = Finite (of_int (whole_part d))"
  by (cases d) (simp_all add: is_whole_def whole_part_def)

text \<open>Powers of two with an integer exponent.\<close>

lemma pow2_powi: "pow2 k = 2 powi k"
  by (simp add: pow2_def power_int_def inverse_eq_divide power_one_over)

lemma pow2_pos: "0 < pow2 k"
  by (simp add: pow2_def)

lemma pow2_add: "pow2 (i + j) = pow2 i * pow2 j"
  by (simp add: pow2_powi power_int_add)

text \<open>The exponent is not too large: \<open>2^e \<le> a\<close>.\<close>

lemma exponent_of_lower:
  assumes "0 < a"
  shows "pow2 (exponent_of a) \<le> a"
proof -
  obtain p q where pq: "quotient_of a = (p, q)" by (cases "quotient_of a")
  then have q: "0 < q" and a: "a = of_int p / of_int q"
    by (auto dest: quotient_of_denom_pos quotient_of_div)
  from assms q a have p: "0 < p" by (simp add: zero_less_divide_iff)
  define d where "d = bitlen p - bitlen q"
  have "pow2 (d - 1) \<le> a"
  proof -
    from bitlen_bounds [OF p] have "(2::int) ^ nat (bitlen p - 1) \<le> p" by simp
    then have "(of_int ((2::int) ^ nat (bitlen p - 1)) :: rat) \<le> of_int p"
      unfolding of_int_le_iff .
    moreover have "1 \<le> bitlen p" using p by (auto simp: bitlen_alt_def)
    ultimately have lo: "pow2 (bitlen p - 1) \<le> of_int p" by (simp add: pow2_def)
    from bitlen_bounds [OF q] have "q < 2 ^ nat (bitlen q)" by simp
    then have "(of_int q :: rat) < of_int ((2::int) ^ nat (bitlen q))"
      unfolding of_int_less_iff .
    moreover have "0 \<le> bitlen q" by (rule bitlen_nonneg)
    ultimately have hi: "of_int q \<le> pow2 (bitlen q)" by (simp add: pow2_def)
    have "pow2 (d - 1) * of_int q \<le> pow2 (d - 1) * pow2 (bitlen q)"
      using hi pow2_pos [of "d - 1"] by (simp add: mult_left_mono)
    also have "\<dots> = pow2 (bitlen p - 1)"
      by (simp add: pow2_add [symmetric] d_def)
    finally have "pow2 (d - 1) * of_int q \<le> of_int p" using lo by simp
    then show ?thesis using q by (simp add: a pos_le_divide_eq)
  qed
  then show ?thesis
    by (simp add: exponent_of_def pq Let_def d_def [symmetric])
qed

lemma round_half_even_ge: "1 \<le> x \<Longrightarrow> 1 \<le> round_half_even x"
  by (auto simp: round_half_even_def Let_def le_floor_iff intro: add_increasing2)

lemma round_half_even_le: "x \<le> 0 \<Longrightarrow> round_half_even x \<le> 0"
proof -
  assume x: "x \<le> 0"
  then have f: "\<lfloor>x\<rfloor> \<le> 0" by (metis floor_mono floor_zero)
  show ?thesis
  proof (cases "\<lfloor>x\<rfloor> = 0")
    case True
    then have "0 \<le> x" by (simp add: floor_eq_iff)
    with x have "x = 0" by simp
    then show ?thesis by (simp add: round_half_even_def)
  next
    case False
    with f have "\<lfloor>x\<rfloor> + 1 \<le> 0" by linarith
    with f show ?thesis unfolding round_half_even_def Let_def by presburger
  qed
qed

text \<open>Rounding keeps the sign of a value that is a multiple of the smallest positive
  double, \<open>2^(-1074)\<close>.\<close>

lemma round_double_positive:
  assumes "r = of_int m * pow2 (- 1074)" and "0 < r"
  shows "js_lt (Finite 0) (round_double r)"
proof -
  define e where "e = exponent_of \<bar>r\<bar>"
  define k where "k = max e (- 1022) - 52"
  define n where "n = round_half_even (r / pow2 k)"
  have "1 \<le> r / pow2 k"
  proof (cases "- 1022 \<le> e")
    case True
    then have k: "k = e - 52" by (simp add: k_def)
    from exponent_of_lower [of "\<bar>r\<bar>"] assms(2) have "pow2 e \<le> r" by (simp add: e_def)
    moreover have "pow2 e = pow2 k * pow2 52" by (simp add: k pow2_add [symmetric])
    moreover have "(1::rat) \<le> pow2 52" by (simp add: pow2_def)
    ultimately have "pow2 k * 1 \<le> r"
      using pow2_pos [of k] by (metis mult_left_mono less_imp_le order_trans)
    then show ?thesis using pow2_pos [of k] by (simp add: pos_le_divide_eq mult.commute)
  next
    case False
    then have k: "k = - 1074" by (simp add: k_def)
    from assms pow2_pos [of "- 1074"] have "0 < m" by (simp add: zero_less_mult_iff)
    then have "(1::rat) \<le> of_int m" by simp
    then show ?thesis using pow2_pos [of "- 1074"] by (simp add: k assms(1))
  qed
  then have "1 \<le> n" unfolding n_def by (rule round_half_even_ge)
  then have "0 < (of_int n :: rat) * pow2 k" using pow2_pos [of k] by simp
  moreover have "round_double r =
      (if 1024 \<le> exponent_of \<bar>of_int n * pow2 k\<bar>
       then (if 0 < r then PosInfinity else NegInfinity) else Finite (of_int n * pow2 k))"
    by (simp only: round_double_def Let_def n_def k_def e_def)
  ultimately show ?thesis
    using assms(2) by (simp add: js_lt_def)
qed

lemma round_double_not_positive:
  assumes "r \<le> 0"
  shows "\<not> js_lt (Finite 0) (round_double r)"
proof -
  define k where "k = max (exponent_of \<bar>r\<bar>) (- 1022) - 52"
  define n where "n = round_half_even (r / pow2 k)"
  from assms pow2_pos [of k] have "r / pow2 k \<le> 0" by (simp add: divide_le_0_iff)
  then have "n \<le> 0" unfolding n_def by (rule round_half_even_le)
  then have "(of_int n :: rat) * pow2 k \<le> 0"
    using pow2_pos [of k] by (simp add: mult_le_0_iff)
  moreover have "round_double r =
      (if 1024 \<le> exponent_of \<bar>of_int n * pow2 k\<bar>
       then (if 0 < r then PosInfinity else NegInfinity) else Finite (of_int n * pow2 k))"
    by (simp only: round_double_def Let_def n_def k_def)
  ultimately show ?thesis
    using assms by (simp add: js_lt_def)
qed

text \<open>Every finite result of rounding is such a multiple.\<close>

lemma round_double_grid:
  assumes "round_double r = Finite x"
  shows "\<exists>m. x = of_int m * pow2 (- 1074)"
proof -
  define k where "k = max (exponent_of \<bar>r\<bar>) (- 1022) - 52"
  define n where "n = round_half_even (r / pow2 k)"
  from assms have x: "x = of_int n * pow2 k"
    by (simp add: round_double_def Let_def k_def [symmetric] n_def [symmetric]
        split: if_splits)
  have "0 \<le> k + 1074" by (simp add: k_def)
  then have "pow2 (k + 1074) = of_int (2 ^ nat (k + 1074))" by (simp add: pow2_def)
  moreover have "pow2 k = pow2 (k + 1074) * pow2 (- 1074)"
    by (simp add: pow2_add [symmetric])
  ultimately have "x = of_int (n * 2 ^ nat (k + 1074)) * pow2 (- 1074)"
    by (simp add: x)
  then show ?thesis by blast
qed

lemma js_add_grid:
  assumes "js_add x y = Finite r"
  shows "\<exists>m. r = of_int m * pow2 (- 1074)"
  using assms by (cases x; cases y) (auto dest: round_double_grid)

lemma foldl_js_add_grid:
  assumes "foldl (\<lambda>sum x. js_add sum (f x)) init xs = Finite r"
    and "\<And>i. init = Finite i \<Longrightarrow> \<exists>m. i = of_int m * pow2 (- 1074)"
  shows "\<exists>m. r = of_int m * pow2 (- 1074)"
proof (cases xs rule: rev_cases)
  case Nil
  with assms show ?thesis by simp
next
  case (snoc ys y)
  with assms(1) show ?thesis by (auto dest: js_add_grid)
qed

lemma js_le_trans: "js_le x y \<Longrightarrow> js_le y z \<Longrightarrow> js_le x z"
  by (cases x; cases y; cases z) simp_all

text \<open>The difference of two doubles has the sign that their order gives it.\<close>

lemma js_sub_sign:
  assumes "x \<noteq> NaN" "y \<noteq> NaN"
    and "\<And>a. x = Finite a \<Longrightarrow> \<exists>m. a = of_int m * pow2 (- 1074)"
    and "\<And>b. y = Finite b \<Longrightarrow> \<exists>m. b = of_int m * pow2 (- 1074)"
  shows "if js_lt (Finite 0) (js_sub y x) then js_le x y else js_le y x"
proof (cases "\<exists>a b. x = Finite a \<and> y = Finite b")
  case True
  then obtain a b where xy: "x = Finite a" "y = Finite b" by blast
  from assms(3) [OF xy(1)] assms(4) [OF xy(2)] obtain m n where
    "a = of_int m * pow2 (- 1074)" "b = of_int n * pow2 (- 1074)" by blast
  then have grid: "b + - a = of_int (n - m) * pow2 (- 1074)" by (simp add: algebra_simps)
  show ?thesis
  proof (cases "a < b")
    case True
    then have "0 < b + - a" by simp
    with grid have "js_lt (Finite 0) (round_double (b + - a))"
      by (rule round_double_positive)
    with True show ?thesis by (simp add: xy js_sub_def)
  next
    case False
    then have "b + - a \<le> 0" by simp
    then have "\<not> js_lt (Finite 0) (round_double (b + - a))"
      by (rule round_double_not_positive)
    with False show ?thesis by (simp add: xy js_sub_def)
  qed
next
  case False
  with assms(1,2) show ?thesis
    by (cases x; cases y) (simp_all add: js_sub_def js_lt_def)
qed

section \<open>Properties of the transfer calculation\<close>

lemma set_add_mem: "x \<in> set (set_add xs y) \<longleftrightarrow> x \<in> set xs \<or> x = y"
  by (auto simp: set_add_def)

lemma set_foldl_set_add:
  "set (foldl (\<lambda>acc p. set_add acc (f p)) acc ps) = set acc \<union> f ` set ps"
  by (induction ps arbitrary: acc) (auto simp: set_add_mem)

text \<open>Every program some card transfers to is listed, whatever the wallet holds.\<close>

lemma united_in_allPrograms: "''united'' \<in> set (allPrograms wallet)"
  by (simp add: allPrograms_def TRANSFER_PROGRAMS_def set_foldl_set_add
      CHASE_UR_PARTNERS_def partner_def set_add_mem)

text \<open>The sort returns the elements it was given, and orders them by a key whenever
  the comparator's sign agrees with the order of the keys.\<close>

lemma set_js_insort: "set (js_insort cmp x ys) = insert x (set ys)"
  by (induction ys) auto

lemma set_js_sort: "set (js_sort cmp xs) = set xs"
  by (induction xs) (simp_all add: js_sort_def set_js_insort)

lemma js_insort_sorted:
  assumes "sorted_wrt (\<lambda>a b. js_le (key b) (key a)) ys"
    and "\<And>y. y \<in> set ys \<Longrightarrow>
      (if js_lt (Finite 0) (cmp x y) then js_le (key x) (key y) else js_le (key y) (key x))"
  shows "sorted_wrt (\<lambda>a b. js_le (key b) (key a)) (js_insort cmp x ys)"
  using assms
proof (induction ys)
  case Nil
  then show ?case by simp
next
  case (Cons y ys)
  show ?case
  proof (cases "js_lt (Finite 0) (cmp x y)")
    case True
    then have step: "js_insort cmp x (y # ys) = y # js_insort cmp x ys" by simp
    from True Cons.prems(2) [of y] have xy: "js_le (key x) (key y)" by simp
    from Cons.prems have "sorted_wrt (\<lambda>a b. js_le (key b) (key a)) (js_insort cmp x ys)"
      by (intro Cons.IH) simp_all
    with xy Cons.prems(1) show ?thesis
      unfolding step by (auto simp: set_js_insort)
  next
    case False
    then have step: "js_insort cmp x (y # ys) = x # y # ys" by simp
    from False Cons.prems(2) [of y] have yx: "js_le (key y) (key x)" by simp
    have "js_le (key z) (key x)" if "z \<in> set ys" for z
      using that Cons.prems(1) yx by (auto intro: js_le_trans)
    with yx Cons.prems(1) show ?thesis
      unfolding step by simp
  qed
qed

lemma js_sort_sorted:
  assumes "\<And>x y. x \<in> set xs \<Longrightarrow> y \<in> set xs \<Longrightarrow>
      (if js_lt (Finite 0) (cmp x y) then js_le (key x) (key y) else js_le (key y) (key x))"
  shows "sorted_wrt (\<lambda>a b. js_le (key b) (key a)) (js_sort cmp xs)"
  using assms
proof (induction xs)
  case Nil
  then show ?case by (simp add: js_sort_def)
next
  case (Cons x xs)
  have tail: "sorted_wrt (\<lambda>a b. js_le (key b) (key a)) (js_sort cmp xs)"
    by (rule Cons.IH) (simp add: Cons.prems)
  have "js_sort cmp (x # xs) = js_insort cmp x (js_sort cmp xs)"
    by (simp add: js_sort_def)
  moreover have "sorted_wrt (\<lambda>a b. js_le (key b) (key a))
      (js_insort cmp x (js_sort cmp xs))"
    using tail by (rule js_insort_sorted) (simp add: set_js_sort Cons.prems)
  ultimately show ?case by simp
qed

text \<open>A fold of double additions over whole numbers is their exact sum, as long as the
  magnitudes add up to at most \<open>2^53\<close>.\<close>

lemma sum_list_abs_nonneg: "0 \<le> sum_list (map abs (ns :: int list))"
  by (induction ns) simp_all

lemma abs_sum_list_le: "\<bar>sum_list (ns :: int list)\<bar> \<le> sum_list (map abs ns)"
proof (induction ns)
  case Nil
  show ?case by simp
next
  case (Cons n ns)
  have "\<bar>sum_list (n # ns)\<bar> \<le> \<bar>n\<bar> + \<bar>sum_list ns\<bar>" by simp
  with Cons show ?case by simp
qed

lemma foldl_js_add_whole:
  assumes "map f xs = map (\<lambda>n. Finite (of_int n)) ns"
    and "\<bar>s\<bar> + sum_list (map abs ns) \<le> 2 ^ 53"
  shows "foldl (\<lambda>sum x. js_add sum (f x)) (Finite (of_int s)) xs
    = Finite (of_int (s + sum_list ns))"
  using assms
proof (induction xs arbitrary: ns s)
  case Nil
  then show ?case by simp
next
  case (Cons x xs)
  from Cons.prems(1) obtain n ns' where ns: "ns = n # ns'"
    and fx: "f x = Finite (of_int n)"
    and rest: "map f xs = map (\<lambda>n. Finite (of_int n)) ns'"
    by (cases ns) auto
  from Cons.prems(2) sum_list_abs_nonneg [of ns']
  have small: "\<bar>s + n\<bar> \<le> 2 ^ 53" and more: "\<bar>s + n\<bar> + sum_list (map abs ns') \<le> 2 ^ 53"
    unfolding ns by simp_all
  from small have step: "js_add (Finite (of_int s)) (f x) = Finite (of_int (s + n))"
    unfolding fx by (rule js_add_whole)
  from Cons.IH [OF rest more] show ?case
    by (simp add: step ns add.assoc)
qed

lemma sum_filter_le:
  fixes g :: "'a \<Rightarrow> int"
  assumes "\<And>x. 0 \<le> g x"
  shows "sum_list (map g (filter P xs)) \<le> sum_list (map g xs)"
  by (induction xs) (simp_all add: assms add_increasing)

text \<open>The sum over the balances a predicate selects, as the folds of
  \<open>getDirectBalance\<close> and \<open>getBalanceForProgram\<close> compute it.\<close>

lemma selected_sum_whole:
  assumes "list_all (\<lambda>b. is_whole (balance b)) wallet"
    and "sum_list (map (\<lambda>b. \<bar>whole_part (balance b)\<bar>) wallet) \<le> S"
    and "S \<le> 2 ^ 53"
  shows "\<exists>n. foldl (\<lambda>sum b. js_add sum (balance b)) (Finite 0) (filter P wallet)
      = Finite (of_int n) \<and> \<bar>n\<bar> \<le> S"
proof -
  let ?xs = "filter P wallet"
  let ?ns = "map (\<lambda>b. whole_part (balance b)) ?xs"
  from assms(1) have "map balance ?xs = map (\<lambda>n. Finite (of_int n)) ?ns"
    by (induction wallet) (auto dest: is_whole_Finite)
  moreover have bound: "sum_list (map abs ?ns) \<le> S"
  proof -
    have "sum_list (map abs ?ns) = sum_list (map (\<lambda>b. \<bar>whole_part (balance b)\<bar>) ?xs)"
      by (simp add: comp_def)
    also have "\<dots> \<le> sum_list (map (\<lambda>b. \<bar>whole_part (balance b)\<bar>) wallet)"
      by (rule sum_filter_le) simp
    finally show ?thesis using assms(2) by simp
  qed
  ultimately have "foldl (\<lambda>sum b. js_add sum (balance b)) (Finite (of_int 0)) ?xs
      = Finite (of_int (0 + sum_list ?ns))"
    using assms(3) by (intro foldl_js_add_whole) simp_all
  moreover have "\<bar>sum_list ?ns\<bar> \<le> S"
    using abs_sum_list_le [of ?ns] bound by simp
  ultimately show ?thesis by auto
qed

text \<open>With every ratio 1, as in all five partner tables, a transfer yields the whole
  card balance.\<close>

lemma transfers_loop_whole:
  assumes "list_all (\<lambda>b. is_whole (balance b)) wallet"
    and "sum_list (map (\<lambda>b. \<bar>whole_part (balance b)\<bar>) wallet) \<le> S"
    and "S \<le> 2 ^ 53"
    and "\<forall>entry \<in> set progs. \<forall>p \<in> set (snd entry). ratio p = Finite 1"
  shows "\<exists>ms. map resultingMiles (transfers_loop progs target wallet)
        = map (\<lambda>n. Finite (of_int n)) ms
      \<and> length ms \<le> length progs \<and> (\<forall>m \<in> set ms. \<bar>m\<bar> \<le> S)"
  using assms(4)
proof (induction progs)
  case Nil
  show ?case by simp
next
  case (Cons entry rest)
  obtain creditProgram partners where entry: "entry = (creditProgram, partners)"
    by (cases entry)
  from Cons obtain ms where ms:
    "map resultingMiles (transfers_loop rest target wallet) = map (\<lambda>n. Finite (of_int n)) ms"
    "length ms \<le> length rest" "\<forall>m \<in> set ms. \<bar>m\<bar> \<le> S"
    by auto
  then have skip: "\<exists>ms. map resultingMiles (transfers_loop rest target wallet)
        = map (\<lambda>n. Finite (of_int n)) ms
      \<and> length ms \<le> length (entry # rest) \<and> (\<forall>m \<in> set ms. \<bar>m\<bar> \<le> S)"
    by (intro exI [of _ ms]) simp
  from selected_sum_whole [OF assms(1-3)] obtain c where
    c: "getBalanceForProgram creditProgram wallet = Finite (of_int c)" "\<bar>c\<bar> \<le> S"
    unfolding getBalanceForProgram_def Let_def by blast
  from c(2) assms(3) have c53: "\<bar>c\<bar> \<le> 2 ^ 53" by simp
  show ?case
  proof (cases "js_le (Finite (of_int c)) (Finite 0)")
    case True
    with skip show ?thesis by (simp add: entry c(1))
  next
    case False
    note positive = this
    show ?thesis
    proof (cases "find (\<lambda>p. partnerProgram p = target) partners")
      case None
      with positive skip show ?thesis by (simp add: entry c(1))
    next
      case (Some p)
      then have "p \<in> set partners" by (auto simp: find_Some_iff)
      with Cons.prems have r: "ratio p = Finite 1" by (auto simp: entry)
      show ?thesis
      proof (cases "js_le (minimumTransfer p) (Finite (of_int c))")
        case True
        have "map resultingMiles (transfers_loop (entry # rest) target wallet)
            = map (\<lambda>n. Finite (of_int n)) (c # ms)"
          using positive Some True
          by (simp add: entry c(1) r Let_def ratio_one_whole [OF c53] ms(1)
              del: js_le.simps js_div.simps js_mul.simps js_floor.simps)
        moreover have "length (c # ms) \<le> length (entry # rest)" using ms(2) by simp
        moreover have "\<forall>m \<in> set (c # ms). \<bar>m\<bar> \<le> S" using ms(3) c(2) by simp
        ultimately show ?thesis by blast
      next
        case False
        with positive Some skip show ?thesis
          by (simp add: entry c(1) r Let_def ratio_one_whole [OF c53]
              del: js_le.simps js_div.simps js_mul.simps js_floor.simps)
      qed
    qed
  qed
qed

lemma transfer_ratios_one:
  "\<forall>entry \<in> set TRANSFER_PROGRAMS. \<forall>p \<in> set (snd entry). ratio p = Finite 1"
  by (simp add: TRANSFER_PROGRAMS_def CHASE_UR_PARTNERS_def AMEX_MR_PARTNERS_def
      CAPITAL_ONE_PARTNERS_def CITI_TYP_PARTNERS_def BILT_PARTNERS_def partner_def)

lemma sum_list_abs_bounded:
  assumes "\<forall>m \<in> set ms. \<bar>m\<bar> \<le> (S::int)"
  shows "sum_list (map abs ms) \<le> int (length ms) * S"
  using assms by (induction ms) (simp_all add: algebra_simps)

text \<open>One calculation on a wallet of whole balances: all three numbers are whole, and
  the total is the exact sum.\<close>

lemma calculation_whole:
  assumes "whole_balances wallet"
  shows "\<exists>d ms. directBalance (calculation wallet program) = Finite (of_int d)
      \<and> map resultingMiles (transferOptions (calculation wallet program))
          = map (\<lambda>n. Finite (of_int n)) ms
      \<and> transferableBalance (calculation wallet program) = Finite (of_int (d + sum_list ms))"
proof -
  define S where "S = sum_list (map (\<lambda>b. \<bar>whole_part (balance b)\<bar>) wallet)"
  from assms have whole: "list_all (\<lambda>b. is_whole (balance b)) wallet"
    and S12: "6 * S \<le> 2 ^ 53"
    by (simp_all add: whole_balances_def S_def)
  have S0: "0 \<le> S" unfolding S_def by (induction wallet) simp_all
  from S12 S0 have S53: "S \<le> 2 ^ 53" by simp
  have SS: "sum_list (map (\<lambda>b. \<bar>whole_part (balance b)\<bar>) wallet) \<le> S"
    by (simp add: S_def)
  from selected_sum_whole [OF whole SS S53] obtain d where
    d: "getDirectBalance program wallet = Finite (of_int d)" "\<bar>d\<bar> \<le> S"
    unfolding getDirectBalance_def by blast
  from transfers_loop_whole [OF whole SS S53 transfer_ratios_one] obtain ms where
    ms: "map resultingMiles (calculateTransfersToProgram program wallet)
        = map (\<lambda>n. Finite (of_int n)) ms"
      "length ms \<le> length TRANSFER_PROGRAMS" "\<forall>m \<in> set ms. \<bar>m\<bar> \<le> S"
    unfolding calculateTransfersToProgram_def by blast
  from ms(2) have "int (length ms) \<le> 5" by (simp add: TRANSFER_PROGRAMS_def)
  then have "int (length ms) * S \<le> 5 * S" using S0 by (rule mult_right_mono)
  with sum_list_abs_bounded [OF ms(3)] have five: "sum_list (map abs ms) \<le> 5 * S" by simp
  with d(2) S12 have fits: "\<bar>d\<bar> + sum_list (map abs ms) \<le> 2 ^ 53" by simp
  have total: "foldl (\<lambda>sum option. js_add sum (resultingMiles option)) (Finite (of_int d))
        (calculateTransfersToProgram program wallet)
      = Finite (of_int (d + sum_list ms))"
    using ms(1) fits by (rule foldl_js_add_whole)
  from d(1) ms(1) total show ?thesis
    by (intro exI [of _ d] exI [of _ ms]) (simp add: calculation_def Let_def)
qed

lemma of_int_sum_list_rat: "(of_int (sum_list ns) :: rat) = sum_list (map of_int ns)"
  by (induction ns) simp_all

text \<open>Whatever the wallet holds, a finite \<open>transferableBalance\<close> is a multiple of
  \<open>2^(-1074)\<close>: it is 0 or the result of an addition.\<close>

lemma calculation_grid:
  assumes "transferableBalance (calculation wallet program) = Finite r"
  shows "\<exists>m. r = of_int m * pow2 (- 1074)"
proof -
  have direct: "\<exists>m. i = of_int m * pow2 (- 1074)"
    if "getDirectBalance program wallet = Finite i" for i
    using that unfolding getDirectBalance_def
  proof (rule foldl_js_add_grid)
    fix z :: rat assume "Finite 0 = Finite z"
    then have "z = of_int 0 * pow2 (- 1074)" by simp
    then show "\<exists>m. z = of_int m * pow2 (- 1074)" by blast
  qed
  from assms have "foldl (\<lambda>sum option. js_add sum (resultingMiles option))
      (getDirectBalance program wallet) (calculateTransfersToProgram program wallet)
    = Finite r"
    by (simp add: calculation_def Let_def)
  then show ?thesis using direct by (rule foldl_js_add_grid)
qed

text \<open>
  C10 (as the code has it). Each calculation that \<open>calculateTransferOptions\<close> returns
  has as \<open>transferableBalance\<close> its \<open>directBalance\<close> with the \<open>resultingMiles\<close> of its
  \<open>transferOptions\<close> added one at a time, in double arithmetic. For a wallet of whole
  balances whose magnitudes, taken six times, stay within \<open>2^53\<close> (\<open>whole_balances\<close>),
  that is the exact sum: \<open>transferableBalance = directBalance +\<close> the sum of
  \<open>resultingMiles\<close>. And whenever no \<open>transferableBalance\<close> is \<open>NaN\<close>, the returned
  list is in non-increasing order of \<open>transferableBalance\<close>.
\<close>

theorem calculateTransferOptions_sum_sorted:
  "(\<forall>c \<in> set (calculateTransferOptions wallet).
      transferableBalance c
        = foldl (\<lambda>sum option. js_add sum (resultingMiles option)) (directBalance c)
            (transferOptions c))
   \<and> (whole_balances wallet \<longrightarrow>
        (\<forall>c \<in> set (calculateTransferOptions wallet).
           \<exists>d ms. directBalance c = Finite d
             \<and> map resultingMiles (transferOptions c) = map Finite ms
             \<and> transferableBalance c = Finite (d + sum_list ms)))
   \<and> ((\<forall>c \<in> set (calculateTransferOptions wallet). transferableBalance c \<noteq> NaN) \<longrightarrow>
        sorted_wrt (\<lambda>a b. js_le (transferableBalance b) (transferableBalance a))
          (calculateTransferOptions wallet))"
proof (intro conjI impI ballI)
  fix c assume "c \<in> set (calculateTransferOptions wallet)"
  then obtain p where "c = calculation wallet p"
    by (auto simp: calculateTransferOptions_def set_js_sort)
  then show "transferableBalance c
      = foldl (\<lambda>sum option. js_add sum (resultingMiles option)) (directBalance c)
          (transferOptions c)"
    by (simp add: calculation_def Let_def)
next
  fix c assume whole: "whole_balances wallet"
    and "c \<in> set (calculateTransferOptions wallet)"
  then obtain p where c: "c = calculation wallet p"
    by (auto simp: calculateTransferOptions_def set_js_sort)
  from calculation_whole [OF whole, of p] obtain d ms where
    "directBalance c = Finite (of_int d)"
    "map resultingMiles (transferOptions c) = map (\<lambda>n. Finite (of_int n)) ms"
    "transferableBalance c = Finite (of_int (d + sum_list ms))"
    unfolding c by blast
  then show "\<exists>d ms. directBalance c = Finite d
      \<and> map resultingMiles (transferOptions c) = map Finite ms
      \<and> transferableBalance c = Finite (d + sum_list ms)"
    by (intro exI [of _ "of_int d"] exI [of _ "map of_int ms"])
      (simp add: of_int_sum_list_rat comp_def)
next
  assume no_nan: "\<forall>c \<in> set (calculateTransferOptions wallet). transferableBalance c \<noteq> NaN"
  let ?cs = "map (calculation wallet) (allPrograms wallet)"
  have "if js_lt (Finite 0) (by_transferable_desc x y)
      then js_le (transferableBalance x) (transferableBalance y)
      else js_le (transferableBalance y) (transferableBalance x)"
    if "x \<in> set ?cs" "y \<in> set ?cs" for x y
    unfolding by_transferable_desc_def
  proof (rule js_sub_sign)
    from that no_nan show "transferableBalance x \<noteq> NaN" "transferableBalance y \<noteq> NaN"
      by (auto simp: calculateTransferOptions_def set_js_sort)
  next
    fix a assume "transferableBalance x = Finite a"
    with that(1) show "\<exists>m. a = of_int m * pow2 (- 1074)"
      by (auto dest: calculation_grid)
  next
    fix b assume "transferableBalance y = Finite b"
    with that(2) show "\<exists>m. b = of_int m * pow2 (- 1074)"
      by (auto dest: calculation_grid)
  qed
  then have "sorted_wrt (\<lambda>a b. js_le (transferableBalance b) (transferableBalance a))
      (js_sort by_transferable_desc ?cs)"
    by (rule js_sort_sorted)
  then show "sorted_wrt (\<lambda>a b. js_le (transferableBalance b) (transferableBalance a))
      (calculateTransferOptions wallet)"
    by (simp add: calculateTransferOptions_def)
qed

lemma example_balances_whole: "whole_balances example_balances"
  by (simp add: whole_balances_def example_balances_def wallet_entry_def is_whole_def
      whole_part_def)

lemma example_united_direct:
  "directBalance (calculation example_balances ''united'') = Finite 25000"
  by code_simp

lemma example_united_options:
  "map resultingMiles (transferOptions (calculation example_balances ''united''))
    = [Finite 50000]"
  by code_simp

lemma whole_balances_no_nan:
  assumes "whole_balances wallet"
  shows "\<forall>c \<in> set (calculateTransferOptions wallet). transferableBalance c \<noteq> NaN"
proof
  fix c assume "c \<in> set (calculateTransferOptions wallet)"
  then obtain p where c: "c = calculation wallet p"
    by (auto simp: calculateTransferOptions_def set_js_sort)
  from calculation_whole [OF assms, of p] show "transferableBalance c \<noteq> NaN"
    unfolding c by auto
qed

text \<open>On the example wallet the united entry is in the result, with 25000 miles held
  directly, one transfer of 50000 and therefore 75000 in total; and the result is
  sorted.\<close>

theorem calculateTransferOptions_sum_sorted_witness:
  "whole_balances example_balances
   \<and> calculation example_balances ''united'' \<in> set (calculateTransferOptions example_balances)
   \<and> directBalance (calculation example_balances ''united'') = Finite 25000
   \<and> map resultingMiles (transferOptions (calculation example_balances ''united''))
       = [Finite 50000]
   \<and> transferableBalance (calculation example_balances ''united'') = Finite (25000 + 50000)
   \<and> sorted_wrt (\<lambda>a b. js_le (transferableBalance b) (transferableBalance a))
       (calculateTransferOptions example_balances)"
proof -
  note main = calculateTransferOptions_sum_sorted [of example_balances]
  have mem: "calculation example_balances ''united''
      \<in> set (calculateTransferOptions example_balances)"
    using united_in_allPrograms [of example_balances]
    by (simp add: calculateTransferOptions_def set_js_sort)
  with main example_balances_whole
  obtain d ms where "directBalance (calculation example_balances ''united'') = Finite d"
    "map resultingMiles (transferOptions (calculation example_balances ''united''))
      = map Finite ms"
    "transferableBalance (calculation example_balances ''united'') = Finite (d + sum_list ms)"
    by blast
  then have "d = 25000" "ms = [50000]"
    "transferableBalance (calculation example_balances ''united'') = Finite (d + sum_list ms)"
    by (auto simp: example_united_direct example_united_options)
  then have total: "transferableBalance (calculation example_balances ''united'')
      = Finite (25000 + 50000)" by simp
  from main whole_balances_no_nan [OF example_balances_whole]
  have "sorted_wrt (\<lambda>a b. js_le (transferableBalance b) (transferableBalance a))
      (calculateTransferOptions example_balances)"
    by blast
  with mem total example_balances_whole show ?thesis
    by (simp add: example_united_direct example_united_options)
qed

lemma big_wallet_direct:
  "directBalance (calculation big_wallet ''united'') = Finite 9007199254740992"
  by code_simp

lemma big_wallet_options:
  "map resultingMiles (transferOptions (calculation big_wallet ''united''))
    = [Finite 1001, Finite 1001]"
  by code_simp

lemma big_wallet_total:
  "transferableBalance (calculation big_wallet ''united'') = Finite 9007199254742992"
  by code_simp

text \<open>
  C10 (as the spec words it) fails. With \<open>2^53\<close> united miles held directly and two
  transfers of 1001, the sum is 9007199254742994, but each of the two additions rounds
  down by one and \<open>transferableBalance\<close> is 9007199254742992.
\<close>

theorem transferable_sum_counterexample:
  "calculation big_wallet ''united'' \<in> set (calculateTransferOptions big_wallet)
   \<and> directBalance (calculation big_wallet ''united'') = Finite 9007199254740992
   \<and> map resultingMiles (transferOptions (calculation big_wallet ''united''))
       = [Finite 1001, Finite 1001]
   \<and> transferableBalance (calculation big_wallet ''united'') = Finite 9007199254742992
   \<and> transferableBalance (calculation big_wallet ''united'')
       \<noteq> Finite (9007199254740992 + (1001 + 1001))"
proof -
  have "calculation big_wallet ''united'' \<in> set (calculateTransferOptions big_wallet)"
    using united_in_allPrograms [of big_wallet]
    by (simp add: calculateTransferOptions_def set_js_sort)
  then show ?thesis
    by (simp add: big_wallet_direct big_wallet_options big_wallet_total)
qed

section \<open>Properties of the scrapers' runs\<close>

text \<open>
  C2. Whenever \<open>waitFor\<close> resolves with the condition named \<open>anti-botting\<close> (the
  html-type condition on the text "united.com was unable to complete"), \<open>runScraper\<close>
  of the united scraper throws \<open>Error("anti-botting")\<close> after the three calls
  \<open>goto\<close>, \<open>log\<close>, \<open>waitFor\<close>; it returns no flight list.
\<close>

theorem united_anti_botting_throws:
  assumes "waitFor arkalis united_conditions = Inr pageResult"
    and "name pageResult = ''anti-botting''"
  shows "united_runScraper arkalis parse query
    = ([Goto (united_url query), Log ''waiting for page load'', WaitFor united_conditions],
       Inl (Error ''anti-botting''))
    \<and> map_of united_conditions ''anti-botting''
       = Some [(''type'', JStr ''html''), (''html'', JStr ''united.com was unable to complete'')]"
  using assms by (simp add: united_runScraper_def united_conditions_def)

text \<open>An engine that reports the anti-botting page makes the united run throw.\<close>

theorem united_anti_botting_throws_witness:
  "waitFor blocked_arkalis united_conditions = Inr \<lparr>name = ''anti-botting''\<rparr>
   \<and> snd (united_runScraper blocked_arkalis parse_empty_united example_query)
       = Inl (Error ''anti-botting'')"
  using united_anti_botting_throws [of blocked_arkalis "\<lparr>name = ''anti-botting''\<rparr>"
      parse_empty_united example_query]
  by (simp add: blocked_arkalis_def)


text \<open>
  C3. When the search response of the alaska scraper (a text that is not empty and does
  not start with \<open><!\<close>, as every JSON text) parses to a body without \<open>slices\<close>,
  \<open>runScraper\<close> returns what \<open>warn\<close> returns for the message "No scheduled flights
  between cities", and throws nothing; with the engine's \<open>warn\<close> that is the empty
  record list.
\<close>

theorem alaska_no_slices_warns:
  assumes "waitFor arkalis alaska_conditions = Inr loaded"
    and "evaluate arkalis (Alaska_fetch_search (alaska_searchUrl query)) = Inr (Some responseText)"
    and "responseText \<noteq> []" and "\<not> startsWith responseText ''<!''"
    and "parse responseText = Inr fetchFlights"
    and "alaska_slices fetchFlights = None"
  shows "snd (alaska_runScraper arkalis parse query)
      = Inr (warn arkalis ''No scheduled flights between cities'')
    \<and> (warn arkalis = arkalis_warn
        \<longrightarrow> snd (alaska_runScraper arkalis parse query) = Inr [])"
  using assms
  by (simp add: alaska_runScraper_def Let_def falsy_string_def arkalis_warn_def)

text \<open>The response \<open>{}\<close> has no \<open>slices\<close>: the run returns the empty list.\<close>

theorem alaska_no_slices_warns_witness:
  "waitFor loaded_arkalis alaska_conditions = Inr \<lparr>name = ''loaded''\<rparr>
   \<and> evaluate loaded_arkalis (Alaska_fetch_search (alaska_searchUrl example_query))
       = Inr (Some ''{}'')
   \<and> \<not> startsWith ''{}'' ''<!''
   \<and> parse_empty_alaska ''{}'' = Inr \<lparr>alaska_slices = None\<rparr>
   \<and> warn loaded_arkalis = arkalis_warn
   \<and> snd (alaska_runScraper loaded_arkalis parse_empty_alaska example_query) = Inr []"
proof -
  have w: "waitFor loaded_arkalis alaska_conditions = Inr \<lparr>name = ''loaded''\<rparr>"
    by (simp add: loaded_arkalis_def alaska_conditions_def)
  have e: "evaluate loaded_arkalis (Alaska_fetch_search (alaska_searchUrl example_query))
      = Inr (Some ''{}'')"
    by (simp add: loaded_arkalis_def)
  have n: "''{}'' \<noteq> []" and s: "\<not> startsWith ''{}'' ''<!''"
    by (simp_all add: startsWith_def)
  have p: "parse_empty_alaska ''{}'' = Inr \<lparr>alaska_slices = None\<rparr>"
    by (simp add: parse_empty_alaska_def)
  have f: "alaska_slices \<lparr>alaska_slices = None\<rparr> = None" by simp
  have k: "warn loaded_arkalis = arkalis_warn" by (simp add: loaded_arkalis_def)
  from alaska_no_slices_warns [where parse = parse_empty_alaska, OF w e n s p f] k w e s p
  show ?thesis by (simp add: arkalis_warn_def)
qed


text \<open>The only \<open>waitFor\<close> call of a run is the one with the scraper's conditions.\<close>

lemma united_trace_waitFor:
  "WaitFor cs \<in> set (fst (united_runScraper arkalis parse query)) \<Longrightarrow> cs = united_conditions"
  by (auto simp: united_runScraper_def Let_def
      split: sum.splits option.splits list.splits if_splits)

lemma aa_trace_waitFor:
  "WaitFor cs \<in> set (fst (aa_runScraper arkalis parse query)) \<Longrightarrow> cs = aa_conditions"
  by (auto simp: aa_runScraper_def Let_def
      split: sum.splits option.splits list.splits if_splits)

lemma alaska_trace_waitFor:
  "WaitFor cs \<in> set (fst (alaska_runScraper arkalis parse query)) \<Longrightarrow> cs = alaska_conditions"
  by (auto simp: alaska_runScraper_def Let_def
      split: sum.splits option.splits list.splits if_splits)

text \<open>
  C7 (as the code has it). Every url-type condition that a scraper passes to \<open>waitFor\<close>
  carries its glob in the field \<open>url\<close> and has no fields besides \<open>type\<close>, \<open>url\<close>,
  \<open>onlyStatusCode\<close> and \<open>othersThrow\<close>; none has a field named \<open>pattern\<close>,
  \<open>requiredStatus\<close> or \<open>onErrorStatusFail\<close>.
\<close>

theorem waitFor_url_condition_fields:
  assumes "WaitFor cs \<in> set (fst (united_runScraper arkalis1 parse1 query1))
             \<union> set (fst (aa_runScraper arkalis2 parse2 query2))
             \<union> set (fst (alaska_runScraper arkalis3 parse3 query3))"
    and "(n, c) \<in> set cs"
    and "field c ''type'' = JStr ''url''"
  shows "url_condition_form c
    \<and> \<not> has_field c ''pattern''
    \<and> \<not> has_field c ''requiredStatus''
    \<and> \<not> has_field c ''onErrorStatusFail''"
proof -
  from assms(1) have "cs = united_conditions \<or> cs = aa_conditions \<or> cs = alaska_conditions"
    using united_trace_waitFor aa_trace_waitFor alaska_trace_waitFor by blast
  with assms(2,3) show ?thesis
    by (auto simp: united_conditions_def aa_conditions_def alaska_conditions_def
        url_condition_form_def has_field_def field_def)
qed


lemma aa_example_trace:
  "fst (aa_runScraper loaded_arkalis parse_empty_aa example_query)
    = [Goto ''https://www.aa.com/booking/find-flights'', WaitFor aa_conditions,
       Log ''fetching itinerary'', Evaluate (AA_fetch_itinerary example_query),
       Log ''parsing'']"
  by (simp add: aa_runScraper_def loaded_arkalis_def parse_empty_aa_def falsy_string_def
      aa_conditions_def)

text \<open>The aa run passes one url-type condition, \<open>success\<close>, of that form.\<close>

theorem waitFor_url_condition_fields_witness:
  "WaitFor aa_conditions
      \<in> set (fst (aa_runScraper loaded_arkalis parse_empty_aa example_query))
   \<and> (''success'', snd (hd aa_conditions)) \<in> set aa_conditions
   \<and> field (snd (hd aa_conditions)) ''type'' = JStr ''url''
   \<and> url_condition_form (snd (hd aa_conditions))
   \<and> \<not> has_field (snd (hd aa_conditions)) ''pattern''"
proof -
  have t: "WaitFor aa_conditions
      \<in> set (fst (united_runScraper loaded_arkalis parse_empty_united example_query))
        \<union> set (fst (aa_runScraper loaded_arkalis parse_empty_aa example_query))
        \<union> set (fst (alaska_runScraper loaded_arkalis parse_empty_alaska example_query))"
    by (simp add: aa_example_trace)
  have m: "(''success'', snd (hd aa_conditions)) \<in> set aa_conditions"
    by (simp add: aa_conditions_def)
  have u: "field (snd (hd aa_conditions)) ''type'' = JStr ''url''"
    by (simp add: aa_conditions_def field_def)
  from waitFor_url_condition_fields [OF t m u] m u show ?thesis
    by (simp add: aa_example_trace)
qed


text \<open>
  C7 (as the spec words it) fails: the url-type condition of the aa run has the fields
  \<open>type\<close>, \<open>url\<close>, \<open>onlyStatusCode\<close> and \<open>othersThrow\<close>, and none named \<open>pattern\<close>,
  \<open>requiredStatus\<close> or \<open>onErrorStatusFail\<close>.
\<close>

theorem waitFor_pattern_counterexample:
  "WaitFor aa_conditions
      \<in> set (fst (aa_runScraper loaded_arkalis parse_empty_aa example_query))
   \<and> aa_conditions
       = [(''success'', [(''type'', JStr ''url''),
            (''url'', JStr ''https://www.aa.com/booking/*/find-flights*''),
            (''onlyStatusCode'', JNum 200), (''othersThrow'', JBool True)])]
   \<and> \<not> has_field (snd (hd aa_conditions)) ''pattern''
   \<and> \<not> has_field (snd (hd aa_conditions)) ''requiredStatus''
   \<and> \<not> has_field (snd (hd aa_conditions)) ''onErrorStatusFail''"
  by (simp add: aa_example_trace aa_conditions_def has_field_def)

section \<open>Properties of \<open>standardizeResults\<close>\<close>

text \<open>A loop ends with a throw as soon as one element throws.\<close>

lemma collect_throws:
  "x \<in> set xs \<Longrightarrow> isl (f x) \<Longrightarrow> isl (collect f xs)"
  by (induction xs) (auto split: sum.splits)

lemma map_throwing_throws:
  "x \<in> set xs \<Longrightarrow> isl (f x) \<Longrightarrow> isl (map_throwing f xs)"
  by (induction xs) (auto split: sum.splits)

lemma united_products_throws:
  "product \<in> set ps \<Longrightarrow> Prices product \<noteq> [] \<Longrightarrow> united_cabin (Description product) = None
    \<Longrightarrow> isl (united_products ps fs)"
  by (induction ps arbitrary: fs) (auto simp: Let_def split: option.splits)

lemma alaska_fares_loop_throws:
  "fare \<in> set fs' \<Longrightarrow> (case cabins fare of [] \<Rightarrow> True | c # _ \<Rightarrow> c \<notin> set alaska_known_cabins)
    \<Longrightarrow> isl (alaska_fares_loop fs' fs)"
proof (induction fs' arbitrary: fs)
  case Nil
  then show ?case by simp
next
  case (Cons a fs')
  show ?case
  proof (cases "a = fare")
    case True
    with Cons.prems(2) show ?thesis
      by (auto simp: Let_def split: list.splits)
  next
    case False
    with Cons show ?thesis
      by (auto simp: Let_def split: option.splits)
  qed
qed


text \<open>A lookup in an object literal is \<open>undefined\<close> exactly for a key that the literal
  does not list and that is not the name of an inherited member.\<close>

lemma literal_lookup_None:
  "literal_lookup tbl k = None \<longleftrightarrow> k \<notin> fst ` set tbl \<and> k \<notin> set object_prototype_keys"
proof -
  have "map_of tbl k = None \<longleftrightarrow> k \<notin> fst ` set tbl" by (rule map_of_eq_None_iff)
  then show ?thesis by (cases "map_of tbl k") (auto simp: literal_lookup_def)
qed

text \<open>The fare-code key is at most one character long, and no inherited name is.\<close>

lemma fare_code_key_not_inherited: "fare_code_key product \<notin> set object_prototype_keys"
  by (auto simp: fare_code_key_def fareCode0_def object_prototype_keys_def
      split: option.splits list.splits)

lemma aa_lookup_cabin_None:
  "aa_lookup_cabin product = None \<longleftrightarrow>
     fare_code_key product \<notin> fst ` set awardCabinByFareCode_table
     \<and> fare_code_key product \<notin> fst ` set cabinByFareCode_table
     \<and> productType product \<notin> fst ` set cabinByProductType_table
     \<and> productType product \<notin> set object_prototype_keys"
proof -
  have award: "awardCabinByFareCode product = None
      \<longleftrightarrow> fare_code_key product \<notin> fst ` set awardCabinByFareCode_table"
    using fare_code_key_not_inherited [of product]
    by (simp add: awardCabinByFareCode_def literal_lookup_None)
  have plain: "cabinByFareCode product = None
      \<longleftrightarrow> fare_code_key product \<notin> fst ` set cabinByFareCode_table"
    using fare_code_key_not_inherited [of product]
    by (simp add: cabinByFareCode_def literal_lookup_None)
  have type: "cabinByProductType product = None
      \<longleftrightarrow> productType product \<notin> fst ` set cabinByProductType_table
        \<and> productType product \<notin> set object_prototype_keys"
    by (simp add: cabinByProductType_def literal_lookup_None)
  show ?thesis
    unfolding award [symmetric] plain [symmetric] type [symmetric]
    by (auto simp: aa_lookup_cabin_def split: option.splits)
qed

text \<open>
  C4 (as the code has it). A fare product that a scraper converts into a fare, and whose
  classification value is not among the scraper's known values, makes
  \<open>standardizeResults\<close> throw. The products a scraper converts are: for united, a
  product with at least one price, of a flight whose origin, destination and departure
  date match the request; for aa, a product with \<open>productAvailable\<close>; for alaska, a
  fare of a single-segment slice on the queried route. The known values are the keys of
  united's \<open>Description\<close> table, the keys of aa's two fare-code tables and of its
  \<open>productType\<close> table, and alaska's whitelist. For united's \<open>Description\<close> and aa's
  \<open>productType\<close> the value is moreover taken not to be the name of a member that the
  table inherits from \<open>Object.prototype\<close>: on such a name the lookup of the source
  finds the inherited member, and a fare is emitted (see \<open>inherited_trip\<close> below).
\<close>

theorem unknown_cabin_throws:
  "(\<forall>flight \<in> set (Flights unitedTrip). \<forall>product \<in> set (Products flight).
      Origin flight = or_string (RequestedOrigin unitedTrip) (TripOrigin unitedTrip)
      \<and> Destination flight
          = or_string (RequestedDestination unitedTrip) (TripDestination unitedTrip)
      \<and> take 10 (DepartDateTime flight @ '':00'') = take 10 (query_departureDate query)
      \<and> Prices product \<noteq> []
      \<and> description_key (Description product) \<notin> fst ` set united_cabin_table
      \<and> description_key (Description product) \<notin> set object_prototype_keys
      \<longrightarrow> isl (united_standardizeResults query unitedTrip))
   \<and> (\<forall>slice \<in> set slices. \<forall>product \<in> set (pricingDetail slice).
      productAvailable product
      \<and> fare_code_key product \<notin> fst ` set awardCabinByFareCode_table
      \<and> fare_code_key product \<notin> fst ` set cabinByFareCode_table
      \<and> productType product \<notin> fst ` set cabinByProductType_table
      \<and> productType product \<notin> set object_prototype_keys
      \<longrightarrow> isl (aa_standardizeResults slices query))
   \<and> (\<forall>slice \<in> set alaskaSlices. \<forall>fare \<in> set (map snd (alaska_fares slice)).
      alaska_slices raw = Some alaskaSlices
      \<and> length (alaska_segments slice) = 1
      \<and> departureStation (hd (alaska_segments slice)) = query_origin query
      \<and> arrivalStation (hd (alaska_segments slice)) = query_destination query
      \<and> (case cabins fare of [] \<Rightarrow> True | c # _ \<Rightarrow> c \<notin> set alaska_known_cabins)
      \<longrightarrow> isl (alaska_standardizeResults raw query))"
proof (intro conjI ballI impI)
  fix flight product
  assume f: "flight \<in> set (Flights unitedTrip)" and p: "product \<in> set (Products flight)"
    and h: "Origin flight = or_string (RequestedOrigin unitedTrip) (TripOrigin unitedTrip)
      \<and> Destination flight
          = or_string (RequestedDestination unitedTrip) (TripDestination unitedTrip)
      \<and> take 10 (DepartDateTime flight @ '':00'') = take 10 (query_departureDate query)
      \<and> Prices product \<noteq> []
      \<and> description_key (Description product) \<notin> fst ` set united_cabin_table
      \<and> description_key (Description product) \<notin> set object_prototype_keys"
  then have "united_cabin (Description product) = None"
    by (simp add: united_cabin_def literal_lookup_None)
  with p h have "isl (united_products (Products flight) [])"
    by (simp add: united_products_throws)
  with h have "isl (united_flight query unitedTrip flight)"
    by (auto simp: united_flight_def Let_def split: sum.splits)
  with f show "isl (united_standardizeResults query unitedTrip)"
    unfolding united_standardizeResults_def by (rule collect_throws)
next
  fix slice product
  assume s: "slice \<in> set slices" and p: "product \<in> set (pricingDetail slice)"
    and h: "productAvailable product
      \<and> fare_code_key product \<notin> fst ` set awardCabinByFareCode_table
      \<and> fare_code_key product \<notin> fst ` set cabinByFareCode_table
      \<and> productType product \<notin> fst ` set cabinByProductType_table
      \<and> productType product \<notin> set object_prototype_keys"
  then have none: "aa_lookup_cabin product = None"
    by (simp add: aa_lookup_cabin_None)
  have "isl (aa_slice query slice)"
  proof (cases "segments slice")
    case Nil
    then show ?thesis by (simp add: aa_slice_def)
  next
    case (Cons segment segs)
    note seg = this
    show ?thesis
    proof (cases "legs segment")
      case Nil
      with seg show ?thesis by (simp add: aa_slice_def)
    next
      case (Cons leg ls)
      from none have "isl (aa_fare segment product)"
        by (simp add: aa_fare_def aa_cabin_def)
      moreover from p h have "product \<in> set (filter productAvailable (pricingDetail slice))"
        by simp
      ultimately have "isl (map_throwing (aa_fare segment)
          (filter productAvailable (pricingDetail slice)))"
        by (rule map_throwing_throws [rotated])
      with seg Cons show ?thesis
        by (auto simp: aa_slice_def split: sum.splits)
    qed
  qed
  with s show "isl (aa_standardizeResults slices query)"
    unfolding aa_standardizeResults_def by (rule collect_throws)
next
  fix slice fare
  assume s: "slice \<in> set alaskaSlices" and f: "fare \<in> set (map snd (alaska_fares slice))"
    and h: "alaska_slices raw = Some alaskaSlices
      \<and> length (alaska_segments slice) = 1
      \<and> departureStation (hd (alaska_segments slice)) = query_origin query
      \<and> arrivalStation (hd (alaska_segments slice)) = query_destination query
      \<and> (case cabins fare of [] \<Rightarrow> True | c # _ \<Rightarrow> c \<notin> set alaska_known_cabins)"
  from f h have "isl (alaska_fares_loop (map snd (alaska_fares slice)) [])"
    by (simp add: alaska_fares_loop_throws)
  with h have "isl (alaska_slice query slice)"
    by (cases "alaska_segments slice")
      (auto simp: alaska_slice_def Let_def split: sum.splits)
  with s have "isl (collect (alaska_slice query) alaskaSlices)"
    by (rule collect_throws)
  with h show "isl (alaska_standardizeResults raw query)"
    by (simp add: alaska_standardizeResults_def)
qed

text \<open>The three \<open>mystery\<close> responses: each scraper throws on its unknown class.\<close>

lemma mystery_keys:
  "description_key (Some ''Mystery Class'') \<notin> fst ` set united_cabin_table"
  "description_key (Some ''Mystery Class'') \<notin> set object_prototype_keys"
  "fare_code_key (aa_product available None ''MYSTERY'' 40000)
    \<notin> fst ` set awardCabinByFareCode_table"
  "fare_code_key (aa_product available None ''MYSTERY'' 40000)
    \<notin> fst ` set cabinByFareCode_table"
  "''MYSTERY'' \<notin> fst ` set cabinByProductType_table"
  "''MYSTERY'' \<notin> set object_prototype_keys"
  "''SUITE'' \<notin> set alaska_known_cabins"
  by (simp_all add: description_key_def united_cabin_table_def object_prototype_keys_def
      fare_code_key_def fareCode0_def aa_product_def awardCabinByFareCode_table_def
      cabinByFareCode_table_def cabinByProductType_table_def alaska_known_cabins_def)

theorem unknown_cabin_throws_witness:
  "description_key (Some ''Mystery Class'') \<notin> fst ` set united_cabin_table
   \<and> description_key (Some ''Mystery Class'') \<notin> set object_prototype_keys
   \<and> isl (united_standardizeResults example_query mystery_trip)
   \<and> fare_code_key (aa_product True None ''MYSTERY'' 40000)
       \<notin> fst ` set awardCabinByFareCode_table
   \<and> fare_code_key (aa_product True None ''MYSTERY'' 40000)
       \<notin> fst ` set cabinByFareCode_table
   \<and> ''MYSTERY'' \<notin> fst ` set cabinByProductType_table
   \<and> ''MYSTERY'' \<notin> set object_prototype_keys
   \<and> isl (aa_standardizeResults [mystery_slice] example_query)
   \<and> ''SUITE'' \<notin> set alaska_known_cabins
   \<and> isl (alaska_standardizeResults \<lparr>alaska_slices = Some [mystery_alaska_slice]\<rparr>
        example_query)"
proof -
  note main = unknown_cabin_throws [of mystery_trip example_query "[mystery_slice]"
      "[mystery_alaska_slice]" "\<lparr>alaska_slices = Some [mystery_alaska_slice]\<rparr>"]
  have "isl (united_standardizeResults example_query mystery_trip)"
    using main [THEN conjunct1] mystery_keys(1,2)
    by (simp add: mystery_trip_def example_query_def or_string_def falsy_string_def)
  moreover have "isl (aa_standardizeResults [mystery_slice] example_query)"
    using main [THEN conjunct2, THEN conjunct1] mystery_keys(3,4) [of True]
      mystery_keys(5,6)
    by (simp add: mystery_slice_def) (simp add: aa_product_def)
  moreover have "isl (alaska_standardizeResults
      \<lparr>alaska_slices = Some [mystery_alaska_slice]\<rparr> example_query)"
    using main [THEN conjunct2, THEN conjunct2] mystery_keys(7)
    by (simp add: mystery_alaska_slice_def example_query_def)
  ultimately show ?thesis
    using mystery_keys(3,4) [of True] mystery_keys(1,2,5,6,7) by simp
qed

text \<open>
  C4 (as the spec words it) fails. In each of three responses the one fare product has
  a classification that is not among the scraper's known values, the scraper passes
  over the product, and \<open>standardizeResults\<close> returns instead of throwing: the aa
  product that is not available and the united product without a price leave a record
  with no fare, and the alaska fare of a connecting slice leaves no record.
\<close>

theorem unavailable_unknown_cabin_counterexample:
  "pricingDetail unavailable_slice = [aa_product False None ''MYSTERY'' 40000]
   \<and> fare_code_key (aa_product False None ''MYSTERY'' 40000)
       \<notin> fst ` set awardCabinByFareCode_table
   \<and> fare_code_key (aa_product False None ''MYSTERY'' 40000)
       \<notin> fst ` set cabinByFareCode_table
   \<and> ''MYSTERY'' \<notin> fst ` set cabinByProductType_table
   \<and> aa_standardizeResults [unavailable_slice] example_query
     = Inr [\<lparr>departureDateTime = ''2026-04-28 16:30'', arrivalDateTime = ''2026-04-29 19:45'',
            origin = ''LAX'', destination = ''DXB'', flightNo = ''AA 100'', duration = 975,
            aircraft = ''Boeing 777'', fares = [],
            amenities = \<lparr>hasPods = Some False, hasWiFi = Some True\<rparr>\<rparr>]
   \<and> map (\<lambda>flight. map Description (Products flight)) (Flights unpriced_trip)
     = [[Some ''Mystery Class'']]
   \<and> description_key (Some ''Mystery Class'') \<notin> fst ` set united_cabin_table
   \<and> united_standardizeResults example_query unpriced_trip
     = Inr [\<lparr>departureDateTime = ''2026-04-28 16:30:00'',
            arrivalDateTime = ''2026-04-29 19:45:00'',
            origin = ''LAX'', destination = ''DXB'', flightNo = ''UA 935'', duration = 975,
            aircraft = ''Boeing 777-300ER'', fares = [],
            amenities = \<lparr>hasPods = None, hasWiFi = None\<rparr>\<rparr>]
   \<and> map (cabins \<circ> snd) (alaska_fares connecting_alaska_slice) = [[''SUITE'']]
   \<and> ''SUITE'' \<notin> set alaska_known_cabins
   \<and> alaska_standardizeResults \<lparr>alaska_slices = Some [connecting_alaska_slice]\<rparr>
       example_query = Inr []"
proof -
  have "aa_standardizeResults [unavailable_slice] example_query
     = Inr [\<lparr>departureDateTime = ''2026-04-28 16:30'', arrivalDateTime = ''2026-04-29 19:45'',
            origin = ''LAX'', destination = ''DXB'', flightNo = ''AA 100'', duration = 975,
            aircraft = ''Boeing 777'', fares = [],
            amenities = \<lparr>hasPods = Some False, hasWiFi = Some True\<rparr>\<rparr>]"
    by (simp add: unavailable_slice_def aa_product_def aa_standardizeResults_def
        aa_slice_def example_segment_def example_query_def aa_datetime_def startsWith_def)
  moreover have "united_standardizeResults example_query unpriced_trip
     = Inr [\<lparr>departureDateTime = ''2026-04-28 16:30:00'',
            arrivalDateTime = ''2026-04-29 19:45:00'',
            origin = ''LAX'', destination = ''DXB'', flightNo = ''UA 935'', duration = 975,
            aircraft = ''Boeing 777-300ER'', fares = [],
            amenities = \<lparr>hasPods = None, hasWiFi = None\<rparr>\<rparr>]"
    by (simp add: unpriced_trip_def united_standardizeResults_def united_flight_def
        example_query_def or_string_def falsy_string_def)
  moreover have "alaska_standardizeResults
      \<lparr>alaska_slices = Some [connecting_alaska_slice]\<rparr> example_query = Inr []"
    by (simp add: connecting_alaska_slice_def alaska_standardizeResults_def
        alaska_slice_def)
  ultimately show ?thesis
    using mystery_keys(3,4) [of False] mystery_keys(1,5,7)
    by (simp add: unavailable_slice_def unpriced_trip_def connecting_alaska_slice_def)
qed

text \<open>
  A classification that is the name of an inherited member is in no table either, and
  yet a fare is emitted for it: \<open>{...}[key]\<close> finds the member of \<open>Object.prototype\<close>,
  which is neither \<open>undefined\<close> nor falsy, and it becomes the fare's \<open>cabin\<close>. So it is
  for the \<open>Description\<close> \<open>toString\<close> in the united scraper and for the \<open>productType\<close>
  \<open>constructor\<close> in the aa scraper. The alaska scraper compares with its whitelist
  before it looks up, and throws.
\<close>

theorem inherited_name_emits_fare:
  "description_key (Some ''toString'') \<notin> fst ` set united_cabin_table
   \<and> united_standardizeResults example_query inherited_trip
     = Inr [\<lparr>departureDateTime = ''2026-04-28 16:30:00'',
            arrivalDateTime = ''2026-04-29 19:45:00'',
            origin = ''LAX'', destination = ''DXB'', flightNo = ''UA 935'', duration = 975,
            aircraft = ''Boeing 777-300ER'',
            fares = [\<lparr>cash = 0, currencyOfCash = [], miles = 80000,
              cabin = InheritedMember ''toString'', scraper = ''united'',
              bookingClass = Some ''I'', isSaverFare = None\<rparr>],
            amenities = \<lparr>hasPods = None, hasWiFi = None\<rparr>\<rparr>]
   \<and> ''constructor'' \<notin> fst ` set cabinByProductType_table
   \<and> aa_standardizeResults [inherited_slice] example_query
     = Inr [\<lparr>departureDateTime = ''2026-04-28 16:30'', arrivalDateTime = ''2026-04-29 19:45'',
            origin = ''LAX'', destination = ''DXB'', flightNo = ''AA 100'', duration = 975,
            aircraft = ''Boeing 777'',
            fares = [\<lparr>cash = 28 / 5, currencyOfCash = ''USD'', miles = 40000,
              cabin = InheritedMember ''constructor'', scraper = ''aa'',
              bookingClass = None, isSaverFare = Some False\<rparr>],
            amenities = \<lparr>hasPods = Some False, hasWiFi = Some True\<rparr>\<rparr>]"
proof -
  have "united_standardizeResults example_query inherited_trip
     = Inr [\<lparr>departureDateTime = ''2026-04-28 16:30:00'',
            arrivalDateTime = ''2026-04-29 19:45:00'',
            origin = ''LAX'', destination = ''DXB'', flightNo = ''UA 935'', duration = 975,
            aircraft = ''Boeing 777-300ER'',
            fares = [\<lparr>cash = 0, currencyOfCash = [], miles = 80000,
              cabin = InheritedMember ''toString'', scraper = ''united'',
              bookingClass = Some ''I'', isSaverFare = None\<rparr>],
            amenities = \<lparr>hasPods = None, hasWiFi = None\<rparr>\<rparr>]"
    by code_simp
  moreover have "aa_standardizeResults [inherited_slice] example_query
     = Inr [\<lparr>departureDateTime = ''2026-04-28 16:30'', arrivalDateTime = ''2026-04-29 19:45'',
            origin = ''LAX'', destination = ''DXB'', flightNo = ''AA 100'', duration = 975,
            aircraft = ''Boeing 777'',
            fares = [\<lparr>cash = 28 / 5, currencyOfCash = ''USD'', miles = 40000,
              cabin = InheritedMember ''constructor'', scraper = ''aa'',
              bookingClass = None, isSaverFare = Some False\<rparr>],
            amenities = \<lparr>hasPods = Some False, hasWiFi = Some True\<rparr>\<rparr>]"
    by code_simp
  ultimately show ?thesis
    by (simp add: description_key_def united_cabin_table_def cabinByProductType_table_def)
qed

text \<open>The fold of the aa scraper keeps the invariant \<open>lowest_inv\<close>.\<close>

lemma collect_member:
  "collect f xs = Inr rs \<Longrightarrow> r \<in> set rs \<Longrightarrow> \<exists>x \<in> set xs. f x = Inr (Some r)"
proof (induction xs arbitrary: rs)
  case Nil
  then show ?case by simp
next
  case (Cons x xs)
  then show ?case
    by (auto split: sum.splits option.splits)
qed

lemma map_throwing_Inr:
  "map_throwing f xs = Inr ys \<Longrightarrow> x \<in> set xs \<Longrightarrow> \<exists>y \<in> set ys. f x = Inr y"
proof (induction xs arbitrary: ys)
  case Nil
  then show ?case by simp
next
  case (Cons a xs)
  then show ?case
    by (auto split: sum.splits)
qed

lemma find_cabin_Some:
  "find (\<lambda>check. cabin check = c) acc = Some existing
    \<Longrightarrow> existing \<in> set acc \<and> cabin existing = c"
  by (auto simp: find_Some_iff)

lemma find_cabin_None:
  "find (\<lambda>check. cabin check = c) acc = None \<Longrightarrow> \<forall>x \<in> set acc. cabin x \<noteq> c"
  by (auto simp: find_None_iff)

lemma distinct_cabin_filter_append:
  "distinct (map cabin acc)
    \<Longrightarrow> distinct (map cabin (filter (\<lambda>check. cabin check \<noteq> cabin fare) acc @ [fare]))"
  by (induction acc) auto

lemma distinct_cabin_unique:
  "distinct (map cabin acc) \<Longrightarrow> f \<in> set acc \<Longrightarrow> g \<in> set acc \<Longrightarrow> cabin f = cabin g
    \<Longrightarrow> f = g"
  by (metis distinct_map inj_onD)

lemma lowest_step_inv:
  assumes inv: "lowest_inv seen acc"
  shows "lowest_inv (seen @ [fare]) (lowest_step acc fare)"
proof -
  from inv have d: "distinct (map cabin acc)"
    and cov: "\<And>g. g \<in> set seen \<Longrightarrow> \<exists>f \<in> set acc. cabin f = cabin g"
    and low: "\<And>f g. f \<in> set acc \<Longrightarrow> g \<in> set seen \<Longrightarrow> cabin g = cabin f
      \<Longrightarrow> miles f \<le> miles g"
    unfolding lowest_inv_def by blast+
  let ?others = "filter (\<lambda>check. cabin check \<noteq> cabin fare) acc"
  have replaced: "lowest_inv (seen @ [fare]) (?others @ [fare])"
    if fresh: "\<And>g. g \<in> set seen \<Longrightarrow> cabin g = cabin fare \<Longrightarrow> miles fare \<le> miles g"
  proof -
    have d': "distinct (map cabin (?others @ [fare]))"
      using d by (rule distinct_cabin_filter_append)
    have cov': "\<exists>f \<in> set (?others @ [fare]). cabin f = cabin g"
      if "g \<in> set (seen @ [fare])" for g
    proof (cases "cabin g = cabin fare")
      case True
      then show ?thesis by simp
    next
      case False
      with that have "g \<in> set seen" by auto
      then obtain f where "f \<in> set acc" "cabin f = cabin g" using cov by blast
      with False show ?thesis by auto
    qed
    have low': "miles f \<le> miles g"
      if "f \<in> set (?others @ [fare])" "g \<in> set (seen @ [fare])" "cabin g = cabin f" for f g
    proof (cases "cabin f = cabin fare")
      case True
      with that(1) have f: "f = fare" by auto
      show ?thesis
      proof (cases "g = fare")
        case True
        with f show ?thesis by simp
      next
        case False
        with that(2) have "g \<in> set seen" by simp
        with fresh that(3) f show ?thesis by simp
      qed
    next
      case False
      with that have "f \<in> set acc" "g \<in> set seen" by auto
      with that(3) show ?thesis using low by blast
    qed
    from d' cov' low' show ?thesis unfolding lowest_inv_def by blast
  qed
  show ?thesis
  proof (cases "find (\<lambda>check. cabin check = cabin fare) acc")
    case None
    then have none: "\<forall>x \<in> set acc. cabin x \<noteq> cabin fare" by (rule find_cabin_None)
    from None have step: "lowest_step acc fare = ?others @ [fare]"
      by (simp add: lowest_step_def)
    have "miles fare \<le> miles g" if "g \<in> set seen" "cabin g = cabin fare" for g
      using cov [OF that(1)] none that(2) by auto
    then show ?thesis unfolding step by (rule replaced)
  next
    case (Some existing)
    then have ex: "existing \<in> set acc" "cabin existing = cabin fare"
      using find_cabin_Some by blast+
    show ?thesis
    proof (cases "miles existing < miles fare")
      case True
      with Some have step: "lowest_step acc fare = acc" by (simp add: lowest_step_def)
      have cov': "\<exists>f \<in> set acc. cabin f = cabin g" if "g \<in> set (seen @ [fare])" for g
      proof (cases "g = fare")
        case True
        with ex show ?thesis by blast
      next
        case False
        with that have "g \<in> set seen" by simp
        then show ?thesis by (rule cov)
      qed
      have low': "miles f \<le> miles g"
        if "f \<in> set acc" "g \<in> set (seen @ [fare])" "cabin g = cabin f" for f g
      proof (cases "g = fare")
        case True
        from True that(3) ex(2) have "cabin f = cabin existing" by metis
        then have "f = existing" by (rule distinct_cabin_unique [OF d that(1) ex(1)])
        with True \<open>miles existing < miles fare\<close> show ?thesis by simp
      next
        case False
        with that have "g \<in> set seen" by simp
        with that show ?thesis using low by blast
      qed
      from d cov' low' show ?thesis unfolding step lowest_inv_def by blast
    next
      case False
      with Some have step: "lowest_step acc fare = ?others @ [fare]"
        by (simp add: lowest_step_def)
      have "miles fare \<le> miles g" if "g \<in> set seen" "cabin g = cabin fare" for g
      proof -
        from that(2) ex(2) have "cabin g = cabin existing" by metis
        with ex(1) that(1) have "miles existing \<le> miles g" using low by blast
        with False show ?thesis by simp
      qed
      then show ?thesis unfolding step by (rule replaced)
    qed
  qed
qed

lemma foldl_lowest_inv: "lowest_inv seen (foldl lowest_step [] seen)"
proof (induction seen rule: rev_induct)
  case Nil
  then show ?case by (simp add: lowest_inv_def)
next
  case (snoc x xs)
  then show ?case by (simp add: lowest_step_inv)
qed

lemma aa_fare_Inr:
  "aa_fare segment product = Inr f
    \<Longrightarrow> aa_cabin segment product = Some (cabin f) \<and> miles f = perPassengerAwardPoints product"
  by (auto simp: aa_fare_def split: option.splits)

lemma aa_slice_Some:
  assumes "aa_slice query slice = Inr (Some r)"
  shows "\<exists>mapped. map_throwing (aa_fare (hd (segments slice)))
            (filter productAvailable (pricingDetail slice)) = Inr mapped
          \<and> fares r = foldl lowest_step [] mapped"
  using assms
  by (auto simp: aa_slice_def Let_def split: list.splits sum.splits if_splits)


text \<open>
  C8. Every flight record that \<open>standardizeResults\<close> of the aa scraper returns comes
  from a slice of the response, holds at most one fare per cabin, and each of its fares
  costs no more miles than any available pricing product of that slice that maps to the
  same cabin.
\<close>

theorem aa_lowest_fare_per_cabin:
  assumes "aa_standardizeResults slices query = Inr results"
    and "r \<in> set results"
  shows "\<exists>slice \<in> set slices.
      aa_slice query slice = Inr (Some r)
      \<and> distinct (map cabin (fares r))
      \<and> (\<forall>fare \<in> set (fares r). \<forall>product \<in> set (pricingDetail slice).
            productAvailable product
            \<and> aa_cabin (hd (segments slice)) product = Some (cabin fare)
            \<longrightarrow> miles fare \<le> perPassengerAwardPoints product)"
proof -
  from assms obtain slice where s: "slice \<in> set slices" "aa_slice query slice = Inr (Some r)"
    unfolding aa_standardizeResults_def
    using collect_member [of "aa_slice query" slices results r] by blast
  then obtain mapped where
    m: "map_throwing (aa_fare (hd (segments slice)))
          (filter productAvailable (pricingDetail slice)) = Inr mapped"
    and f: "fares r = foldl lowest_step [] mapped"
    using aa_slice_Some [of query slice r] by blast
  have inv: "lowest_inv mapped (fares r)"
    unfolding f by (rule foldl_lowest_inv)
  have "miles fare \<le> perPassengerAwardPoints product"
    if "fare \<in> set (fares r)" "product \<in> set (pricingDetail slice)"
      "productAvailable product"
      "aa_cabin (hd (segments slice)) product = Some (cabin fare)" for fare product
  proof -
    from that have "product \<in> set (filter productAvailable (pricingDetail slice))" by simp
    with m obtain g where g: "g \<in> set mapped"
      "aa_fare (hd (segments slice)) product = Inr g"
      using map_throwing_Inr [of "aa_fare (hd (segments slice))" _ mapped product] by blast
    with that aa_fare_Inr [OF g(2)] have "cabin g = cabin fare"
      "miles g = perPassengerAwardPoints product" by auto
    moreover from inv have "\<forall>f \<in> set (fares r). \<forall>g \<in> set mapped.
        cabin g = cabin f \<longrightarrow> miles f \<le> miles g"
      unfolding lowest_inv_def by blast
    ultimately show ?thesis using that(1) g(1) by metis
  qed
  moreover from inv have "distinct (map cabin (fares r))"
    unfolding lowest_inv_def by blast
  ultimately show ?thesis using s by blast
qed


lemma example_slice_result:
  "aa_standardizeResults [example_slice] example_query = Inr [example_flight]"
  by code_simp

text \<open>On \<open>example_slice\<close>: of the two economy products (30000 and 25000 miles) and the
  two business products (90000 and 120000) the record keeps the cheaper ones.\<close>

theorem aa_lowest_fare_per_cabin_witness:
  "aa_standardizeResults [example_slice] example_query = Inr [example_flight]
   \<and> distinct (map cabin (fares example_flight))
   \<and> map (\<lambda>f. (cabin f, miles f)) (fares example_flight)
       = [(CabinName ''business'', 90000), (CabinName ''economy'', 25000)]"
proof -
  have "example_flight \<in> set [example_flight]" by simp
  from aa_lowest_fare_per_cabin [OF example_slice_result this]
  have "distinct (map cabin (fares example_flight))" by blast
  then show ?thesis
    by (simp add: example_slice_result) (simp add: example_flight_def)
qed

section \<open>Properties of the AwardWallet balance fetch\<close>

text \<open>Every entry the loop pushes passed the test on its \<open>balance\<close>, and the three
  failures the source raises itself end the \<open>try\<close> block with the error shown.\<close>

lemma accounts_loop_positive:
  "accounts_loop w xs bs = Inr rs \<Longrightarrow> list_all (pushed_ok w) bs \<Longrightarrow> list_all (pushed_ok w) rs"
proof (induction xs arbitrary: bs)
  case Nil
  then show ?case by simp
next
  case (Cons account rest)
  then show ?case
    by (auto simp: pushed_ok_def field_def split: sum.splits if_splits)
qed

lemma collect_accounts_positive:
  "collect_accounts w d = Inr bs \<Longrightarrow> list_all (pushed_ok w) bs"
  by (auto simp: collect_accounts_def split: sum.splits jsval.splits
      dest: accounts_loop_positive)

lemma positive_JNum: "positive w (JNum n) \<longleftrightarrow> 0 < n"
  by (simp add: positive_def number_of_def)

lemma fetch_try_success:
  assumes "fetch_try w credentials = Inr r"
  shows "success r \<and> list_all (pushed_ok w) (balances r)"
proof -
  from assms obtain d bs where "collect_accounts w d = Inr bs"
    and r: "r = \<lparr>success = True,
          balances = sort_key (\<lambda>b. - (case number_of w (field b ''balance'') of
                                               None \<Rightarrow> 0 | Some n \<Rightarrow> n)) bs,
          error_message = None\<rparr>"
    by (auto simp: fetch_try_def split: sum.splits if_splits)
  then have "list_all (pushed_ok w) bs" using collect_accounts_positive by blast
  with r show ?thesis by (simp add: list_all_iff)
qed

lemma fetch_try_missing_file:
  assumes "readFile w (credentialsPath w) = Inl (SystemError ''ENOENT'' m)"
  shows "fetch_try w None
    = Inl (Error (''AwardWallet credentials not found at '' @ credentialsPath w
        @ ''. Please create this file with your API key and user ID.''))"
  using assms by (simp add: fetch_try_def loadAwardWalletCredentials_def load_try_def)

lemma fetch_try_not_ok:
  assumes "fetch w c = Inr response" and "\<not> ok response"
  shows "fetch_try w (Some c)
    = Inl (Error (''AwardWallet API error: '' @ string_of_nat (status response)
        @ '' '' @ statusText response))"
  using assms by (simp add: fetch_try_def)

lemma fetch_try_bad_json:
  assumes "fetch w c = Inr response" and "ok response" and "json response = Inl e"
  shows "fetch_try w (Some c) = Inl e"
  using assms by (simp add: fetch_try_def)


text \<open>
  C9. \<open>fetchAwardWalletBalances\<close> settles to a value in every world and for every
  argument: it never rejects. When the \<open>try\<close> block fails with an error, the value is
  \<open>{success: false, balances: [], error: message}\<close>; a missing credentials file, a
  response that is not OK and a body that does not parse are such failures. On success,
  \<open>balance > 0\<close> holds of every entry returned.
\<close>

theorem fetchAwardWalletBalances_total:
  "\<exists>r. fetchAwardWalletBalances w credentials = Inr r
     \<and> (success r \<longrightarrow>
          (\<forall>b \<in> set (balances r).
             truthy (field b ''balance'') \<and> positive w (field b ''balance'')
             \<and> (\<forall>n. field b ''balance'' = JNum n \<longrightarrow> 0 < n)))
     \<and> (\<forall>e. fetch_try w credentials = Inl e \<longrightarrow>
          r = \<lparr>success = False, balances = [], error_message = Some (message e)\<rparr>)
     \<and> (\<not> success r \<longrightarrow> isl (fetch_try w credentials))
     \<and> (\<forall>m. credentials = None \<and> readFile w (credentialsPath w) = Inl (SystemError ''ENOENT'' m)
          \<longrightarrow> r = \<lparr>success = False, balances = [], error_message =
                 Some (''AwardWallet credentials not found at '' @ credentialsPath w
                   @ ''. Please create this file with your API key and user ID.'')\<rparr>)
     \<and> (\<forall>c response. credentials = Some c \<and> fetch w c = Inr response \<and> \<not> ok response
          \<longrightarrow> r = \<lparr>success = False, balances = [], error_message =
                 Some (''AwardWallet API error: '' @ string_of_nat (status response)
                   @ '' '' @ statusText response)\<rparr>)
     \<and> (\<forall>c response e. credentials = Some c \<and> fetch w c = Inr response \<and> ok response
            \<and> json response = Inl e
          \<longrightarrow> r = \<lparr>success = False, balances = [], error_message = Some (message e)\<rparr>)"
proof (cases "fetch_try w credentials")
  case (Inl e)
  let ?r = "\<lparr>success = False, balances = [], error_message = Some (message e)\<rparr>"
  show ?thesis
  proof (intro exI [of _ ?r] conjI allI impI)
    show "fetchAwardWalletBalances w credentials = Inr ?r"
      using Inl by (simp add: fetchAwardWalletBalances_def)
  next
    assume "success ?r"
    then show "\<forall>b \<in> set (balances ?r).
             truthy (field b ''balance'') \<and> positive w (field b ''balance'')
             \<and> (\<forall>n. field b ''balance'' = JNum n \<longrightarrow> 0 < n)" by simp
  next
    fix e' assume "fetch_try w credentials = Inl e'"
    with Inl show "?r = \<lparr>success = False, balances = [], error_message = Some (message e')\<rparr>"
      by simp
  next
    show "isl (fetch_try w credentials)" using Inl by simp
  next
    fix m
    assume "credentials = None
      \<and> readFile w (credentialsPath w) = Inl (SystemError ''ENOENT'' m)"
    with Inl fetch_try_missing_file [of w m]
    show "?r = \<lparr>success = False, balances = [], error_message =
                 Some (''AwardWallet credentials not found at '' @ credentialsPath w
                   @ ''. Please create this file with your API key and user ID.'')\<rparr>"
      by auto
  next
    fix c response
    assume "credentials = Some c \<and> fetch w c = Inr response \<and> \<not> ok response"
    with Inl fetch_try_not_ok [of w c response]
    show "?r = \<lparr>success = False, balances = [], error_message =
                 Some (''AwardWallet API error: '' @ string_of_nat (status response)
                   @ '' '' @ statusText response)\<rparr>"
      by auto
  next
    fix c response e'
    assume "credentials = Some c \<and> fetch w c = Inr response \<and> ok response
            \<and> json response = Inl e'"
    with Inl fetch_try_bad_json [of w c response e']
    show "?r = \<lparr>success = False, balances = [], error_message = Some (message e')\<rparr>"
      by auto
  qed
next
  case (Inr r)
  from Inr have ok: "success r" "list_all (pushed_ok w) (balances r)"
    using fetch_try_success by blast+
  show ?thesis
  proof (intro exI [of _ r] conjI allI impI)
    show "fetchAwardWalletBalances w credentials = Inr r"
      using Inr by (simp add: fetchAwardWalletBalances_def)
  next
    show "\<forall>b \<in> set (balances r).
             truthy (field b ''balance'') \<and> positive w (field b ''balance'')
             \<and> (\<forall>n. field b ''balance'' = JNum n \<longrightarrow> 0 < n)"
      using ok(2) by (auto simp: list_all_iff pushed_ok_def positive_JNum)
  next
    fix e' assume "fetch_try w credentials = Inl e'"
    with Inr show "r = \<lparr>success = False, balances = [], error_message = Some (message e')\<rparr>"
      by simp
  next
    assume "\<not> success r"
    with ok(1) show "isl (fetch_try w credentials)" by simp
  next
    fix m
    assume "credentials = None
      \<and> readFile w (credentialsPath w) = Inl (SystemError ''ENOENT'' m)"
    with Inr fetch_try_missing_file [of w m]
    show "r = \<lparr>success = False, balances = [], error_message =
                 Some (''AwardWallet credentials not found at '' @ credentialsPath w
                   @ ''. Please create this file with your API key and user ID.'')\<rparr>"
      by auto
  next
    fix c response
    assume "credentials = Some c \<and> fetch w c = Inr response \<and> \<not> ok response"
    with Inr fetch_try_not_ok [of w c response]
    show "r = \<lparr>success = False, balances = [], error_message =
                 Some (''AwardWallet API error: '' @ string_of_nat (status response)
                   @ '' '' @ statusText response)\<rparr>"
      by auto
  next
    fix c response e'
    assume "credentials = Some c \<and> fetch w c = Inr response \<and> ok response
            \<and> json response = Inl e'"
    with Inr fetch_try_bad_json [of w c response e']
    show "r = \<lparr>success = False, balances = [], error_message = Some (message e')\<rparr>"
      by auto
  qed
qed



text \<open>The three example worlds: no credentials file, a 401, and a wallet whose empty
  account is dropped and whose other two come back sorted.\<close>

lemma wallet_world_result:
  "fetchAwardWalletBalances wallet_world (Some example_credentials)
    = Inr \<lparr>success = True,
        balances =
          [[(''programId'', JStr []), (''programName'', JStr ''Bilt Rewards''),
            (''currency'', JStr ''miles''), (''balance'', JNum 12000),
            (''expirationDate'', JUndefined),
            (''lastUpdated'', JStr ''2026-02-13T22:50:00.000Z''), (''isActive'', JBool True)],
           [(''programId'', JStr []), (''programName'', JStr ''United MileagePlus''),
            (''currency'', JStr ''miles''), (''balance'', JNum 5000),
            (''expirationDate'', JUndefined),
            (''lastUpdated'', JStr ''2026-02-13T22:50:00.000Z''), (''isActive'', JBool True)]],
        error_message = None\<rparr>"
  by code_simp

lemma unauthorized_status: "string_of_nat 401 = ''401''"
  by code_simp

theorem fetchAwardWalletBalances_total_witness:
  "fetchAwardWalletBalances missing_file_world None
     = Inr \<lparr>success = False, balances = [], error_message =
         Some (''AwardWallet credentials not found at ''
           @ ''/home/user/.openclaw/credentials/awardwallet.json''
           @ ''. Please create this file with your API key and user ID.'')\<rparr>
   \<and> fetchAwardWalletBalances unauthorized_world (Some example_credentials)
     = Inr \<lparr>success = False, balances = [],
         error_message = Some ''AwardWallet API error: 401 Unauthorized''\<rparr>
   \<and> success (projr (fetchAwardWalletBalances wallet_world (Some example_credentials)))
   \<and> map (\<lambda>b. field b ''balance'')
         (balances (projr (fetchAwardWalletBalances wallet_world (Some example_credentials))))
       = [JNum 12000, JNum 5000]
   \<and> list_all (\<lambda>b. positive wallet_world (field b ''balance''))
         (balances (projr (fetchAwardWalletBalances wallet_world (Some example_credentials))))"
proof -
  have missing: "readFile missing_file_world (credentialsPath missing_file_world)
      = Inl (SystemError ''ENOENT'' ''ENOENT: no such file or directory'')"
    by (simp add: missing_file_world_def)
  from fetchAwardWalletBalances_total [of missing_file_world None] missing
  have c1: "fetchAwardWalletBalances missing_file_world None
     = Inr \<lparr>success = False, balances = [], error_message =
         Some (''AwardWallet credentials not found at ''
           @ credentialsPath missing_file_world
           @ ''. Please create this file with your API key and user ID.'')\<rparr>"
    by blast
  have denied: "fetch unauthorized_world example_credentials
      = Inr \<lparr>ok = False, status = 401, statusText = ''Unauthorized'',
          json = Inl (SyntaxError ''Unexpected end of JSON input'')\<rparr>"
    by (simp add: unauthorized_world_def missing_file_world_def)
  from fetchAwardWalletBalances_total [of unauthorized_world "Some example_credentials"] denied
  have c2: "fetchAwardWalletBalances unauthorized_world (Some example_credentials)
     = Inr \<lparr>success = False, balances = [], error_message =
         Some (''AwardWallet API error: '' @ string_of_nat 401 @ '' '' @ ''Unauthorized'')\<rparr>"
    by fastforce
  from fetchAwardWalletBalances_total [of wallet_world "Some example_credentials"]
  have c3: "list_all (\<lambda>b. positive wallet_world (field b ''balance''))
         (balances (projr (fetchAwardWalletBalances wallet_world (Some example_credentials))))"
    by (auto simp: wallet_world_result list_all_iff)
  from c1 c2 c3 show ?thesis
    by (simp add: wallet_world_result unauthorized_status field_def)
      (simp add: missing_file_world_def)
qed

section \<open>Properties of the session orchestrator\<close>

lemma sessions_Suc: "sessions i (Suc k) = Created i # TornDown i # sessions (Suc i) k"
  by (simp add: sessions_def upt_rec)

lemma sessions_0: "sessions i 0 = []"
  by (simp add: sessions_def)

lemma attempts_sessions:
  "\<exists>k \<le> n. fst (attempts pluginBody n i lastError) = sessions i k"
proof (induction n arbitrary: i lastError)
  case 0
  show ?case by (simp add: sessions_0)
next
  case (Suc n)
  have one: "\<exists>k \<le> Suc n. [Created i, TornDown i] = sessions i k"
    by (rule exI [of _ 1]) (simp add: sessions_Suc sessions_0)
  have more: "\<exists>k \<le> Suc n. Created i # TornDown i # fst (attempts pluginBody n (Suc i) e)
      = sessions i k" for e
  proof -
    from Suc.IH [of "Suc i" e] obtain k where "k \<le> n"
      "fst (attempts pluginBody n (Suc i) e) = sessions (Suc i) k" by blast
    then show ?thesis
      by (intro exI [of _ "Suc k"]) (simp add: sessions_Suc)
  qed
  show ?case
  proof (cases "pluginBody i")
    case (Success records)
    with one show ?thesis by simp
  next
    case NoResults
    with one show ?thesis by simp
  next
    case (Thrown e retryable)
    with one more [of e] show ?thesis
      by (cases retryable) (simp_all add: split_beta)
  next
    case TimedOut
    with more [of timeout_error] show ?thesis by (simp add: split_beta)
  qed
qed

lemma attempts_always_thrown:
  assumes "\<And>j. pluginBody j = Thrown (err j) True"
  shows "attempts pluginBody n i lastError
    = (sessions i n, Inl (if n = 0 then lastError else err (i + n - 1)))"
proof (induction n arbitrary: i lastError)
  case 0
  show ?case by (simp add: sessions_0)
next
  case (Suc n)
  have step: "attempts pluginBody (Suc n) i lastError
      = (case attempts pluginBody n (Suc i) (err i) of
           (events, result) \<Rightarrow> (Created i # TornDown i # events, result))"
    by (simp add: assms)
  show ?case
    unfolding step Suc.IH by (simp add: sessions_Suc)
qed

lemma filter_created_sessions: "length (filter is_created (sessions i k)) = k"
  by (induction k arbitrary: i) (simp_all add: sessions_0 sessions_Suc)

lemma filter_torn_down_sessions:
  "length (filter (\<lambda>e. \<not> is_created e) (sessions i k)) = k"
  by (induction k arbitrary: i) (simp_all add: sessions_0 sessions_Suc)

lemma count_sessions:
  "count_list (sessions i k) (Created j) = (if i \<le> j \<and> j < i + k then 1 else 0)
   \<and> count_list (sessions i k) (TornDown j) = (if i \<le> j \<and> j < i + k then 1 else 0)"
  by (induction k arbitrary: i) (auto simp: sessions_0 sessions_Suc)


text \<open>
  C1. In every run, whatever the plugin does in each attempt (success, no results, error,
  timeout), the session events are those of attempts \<open>1, ..., k\<close> for some
  \<open>k \<le> maxAttempts\<close>, each session torn down before the next is created: every session
  is torn down exactly as often as it is created, at most once. With a plugin that throws
  a retryable error in every attempt there are exactly \<open>maxAttempts\<close> creations and
  \<open>maxAttempts\<close> teardowns, and for \<open>maxAttempts > 0\<close> the error surfaced is the one of
  attempt \<open>maxAttempts\<close>.
\<close>

theorem run_tears_down_every_session:
  "(\<exists>k \<le> maxAttempts config. fst (run pluginBody config) = sessions 1 k)
   \<and> (\<forall>j. count_list (fst (run pluginBody config)) (TornDown j)
          = count_list (fst (run pluginBody config)) (Created j)
        \<and> count_list (fst (run pluginBody config)) (Created j) \<le> 1)
   \<and> ((\<forall>j. pluginBody j = Thrown (err j) True) \<longrightarrow>
        length (filter is_created (fst (run pluginBody config))) = maxAttempts config
        \<and> length (filter (\<lambda>e. \<not> is_created e) (fst (run pluginBody config)))
            = maxAttempts config
        \<and> (0 < maxAttempts config \<longrightarrow>
             snd (run pluginBody config) = Inl (err (maxAttempts config))))"
proof (intro conjI impI allI)
  show form: "\<exists>k \<le> maxAttempts config. fst (run pluginBody config) = sessions 1 k"
    unfolding run_def by (rule attempts_sessions)
  then obtain k where k: "fst (run pluginBody config) = sessions 1 k" by blast
  fix j
  show "count_list (fst (run pluginBody config)) (TornDown j)
          = count_list (fst (run pluginBody config)) (Created j)"
    unfolding k using count_sessions [of 1 k j] by simp
  show "count_list (fst (run pluginBody config)) (Created j) \<le> 1"
    unfolding k using count_sessions [of 1 k j] by simp
next
  assume a: "\<forall>j. pluginBody j = Thrown (err j) True"
  then have r: "run pluginBody config
      = (sessions 1 (maxAttempts config),
         Inl (if maxAttempts config = 0 then Error ''no attempt was made''
              else err (1 + maxAttempts config - 1)))"
    unfolding run_def by (intro attempts_always_thrown) simp
  show "length (filter is_created (fst (run pluginBody config))) = maxAttempts config"
    by (simp add: r filter_created_sessions)
  show "length (filter (\<lambda>e. \<not> is_created e) (fst (run pluginBody config)))
      = maxAttempts config"
    by (simp add: r filter_torn_down_sessions)
  assume "0 < maxAttempts config"
  then show "snd (run pluginBody config) = Inl (err (maxAttempts config))"
    by (simp add: r)
qed


text \<open>Three attempts of a plugin that always throws: three sessions, and the third
  failure surfaced.\<close>

lemma three_attempts_run:
  "run always_throws three_attempts
    = ([Created 1, TornDown 1, Created 2, TornDown 2, Created 3, TornDown 3],
       Inl (Error ''failure 3''))"
  by code_simp

theorem run_tears_down_every_session_witness:
  "(\<forall>j. always_throws j = Thrown (Error (''failure '' @ string_of_nat j)) True)
   \<and> maxAttempts three_attempts = 3
   \<and> length (filter is_created (fst (run always_throws three_attempts))) = 3
   \<and> length (filter (\<lambda>e. \<not> is_created e) (fst (run always_throws three_attempts))) = 3
   \<and> snd (run always_throws three_attempts) = Inl (Error ''failure 3'')
   \<and> fst (run always_throws three_attempts)
       = [Created 1, TornDown 1, Created 2, TornDown 2, Created 3, TornDown 3]"
proof -
  have a: "\<forall>j. always_throws j = Thrown (Error (''failure '' @ string_of_nat j)) True"
    by (simp add: always_throws_def)
  have m: "maxAttempts three_attempts = 3" by (simp add: three_attempts_def)
  from run_tears_down_every_session
    [of three_attempts always_throws "\<lambda>j. Error (''failure '' @ string_of_nat j)"] a m
  have "length (filter is_created (fst (run always_throws three_attempts))) = 3
    \<and> length (filter (\<lambda>e. \<not> is_created e) (fst (run always_throws three_attempts))) = 3
    \<and> snd (run always_throws three_attempts)
        = Inl (Error (''failure '' @ string_of_nat 3))"
    by simp
  with a m show ?thesis by (simp add: three_attempts_run)
qed

section \<open>The fares of a united flight\<close>

lemma find_cabin_None_notin:
  "find (\<lambda>fare. cabin fare = c) fs = None \<Longrightarrow> c \<notin> set (map cabin fs)"
  by (auto simp: find_None_iff)


text \<open>
  X1. The loop over the products of a united flight only appends to the fares: it keeps
  at most one fare per cabin, the one of the first priced product of that cabin, and
  never replaces it (the cheaper fare is assigned to the local variable \<open>existingFare\<close>
  only).
\<close>

theorem united_products_first_fare_kept:
  assumes "united_products ps fs = Inr rs" and "distinct (map cabin fs)"
  shows "distinct (map cabin rs) \<and> (\<exists>added. rs = fs @ added)"
  using assms
proof (induction ps arbitrary: fs)
  case Nil
  then show ?case by simp
next
  case (Cons product rest)
  show ?case
  proof (cases "Prices product = []")
    case True
    with Cons show ?thesis by simp
  next
    case False
    note priced = this
    show ?thesis
    proof (cases "united_cabin (Description product)")
      case None
      with priced Cons.prems(1) show ?thesis by (simp add: Let_def)
    next
      case (Some c)
      show ?thesis
      proof (cases "find (\<lambda>fare. cabin fare = c) fs")
        case (Some existingFare)
        with priced \<open>united_cabin (Description product) = Some c\<close> Cons show ?thesis
          by (simp add: Let_def)
      next
        case None
        let ?fs' = "fs @ [\<lparr>cash = (if length (Prices product) \<ge> 2
                then Amount (Prices product ! 1) else 0),
              currencyOfCash = (if length (Prices product) \<ge> 2
                then Currency (Prices product ! 1) else []),
              miles = Amount (hd (Prices product)), cabin = c, scraper = ''united'',
              bookingClass = BookingCode product, isSaverFare = None\<rparr>]"
        from None have "c \<notin> set (map cabin fs)" by (rule find_cabin_None_notin)
        with Cons.prems(2) have d: "distinct (map cabin ?fs')" by simp
        from priced \<open>united_cabin (Description product) = Some c\<close> None Cons.prems(1)
        have "united_products rest ?fs' = Inr rs" by (simp add: Let_def)
        from Cons.IH [OF this d] show ?thesis by auto
      qed
    qed
  qed
qed


text \<open>Of two economy products, 30000 miles first and 20000 second, the first stays.\<close>

lemma two_economy_products_result:
  "united_products two_economy_products []
    = Inr [\<lparr>cash = 28 / 5, currencyOfCash = ''USD'', miles = 30000,
            cabin = CabinName ''economy'', scraper = ''united'', bookingClass = Some ''X'',
            isSaverFare = None\<rparr>]"
  by code_simp

theorem united_products_first_fare_kept_witness:
  "united_products two_economy_products []
    = Inr [\<lparr>cash = 28 / 5, currencyOfCash = ''USD'', miles = 30000,
            cabin = CabinName ''economy'', scraper = ''united'', bookingClass = Some ''X'',
            isSaverFare = None\<rparr>]
   \<and> distinct (map cabin (projr (united_products two_economy_products [])))"
  using united_products_first_fare_kept [OF two_economy_products_result]
  by (simp add: two_economy_products_result)

end
